theory Spec2Isabelle
  imports Complex_Main "HOL-Library.Word" "HOL-Library.Sublist" "HOL-Library.Multiset"
    "HOL-Library.Char_ord" "HOL-Library.List_Lexorder" "HOL-Library.Product_Lexorder"
    "HOL-Library.Signed_Division"
begin

unbundle bit_operations_syntax

section \<open>Shared types\<close>

text \<open>
  The model follows two files of the segment engine: segcore/SegmentGrowingImpl.cpp and
  index/VectorDiskIndex.cpp. Names are those of the source. The members the source
  writes with a trailing underscore (\<^verbatim>\<open>schema_\<close>, \<^verbatim>\<open>insert_record_\<close>, \<^verbatim>\<open>timestamps_\<close>, ...)
  appear here without it, a parameter \<^verbatim>\<open>size\<close> is \<open>n\<close>, a parameter \<^verbatim>\<open>count\<close> is
  \<open>count'\<close> and a parameter \<^verbatim>\<open>topk\<close> is \<open>topk'\<close>. \<^verbatim>\<open>int64_t\<close> and \<^verbatim>\<open>uint64_t\<close> are 64-bit
  words, read with \<open>sint\<close> where the source's type is signed. A \<^verbatim>\<open>float\<close> and a \<^verbatim>\<open>double\<close>
  are kept as their IEEE 754 bit patterns, binary32 and binary64.
\<close>

type_synonym i64 = "64 word"
type_synonym u64 = "64 word"
type_synonym u32 = "32 word"
type_synonym u8 = "8 word"
type_synonym f32 = "32 word"
type_synonym f64 = "64 word"
type_synonym Timestamp = u64
type_synonym FieldId = int
type_synonym BitsetType = "bool list"

text \<open>
  Exceptions are values. \<open>AssertError\<close> is a failed \<^verbatim>\<open>AssertInfo\<close>, the three codes after
  it are the \<^verbatim>\<open>ErrorCode\<close>s passed to \<^verbatim>\<open>PanicInfo\<close>, \<open>LengthError\<close> is the
  \<^verbatim>\<open>std::length_error\<close> of a container asked for more than \<^verbatim>\<open>max_size()\<close> elements, and
  \<open>UndefinedBehaviour\<close> marks a read outside a buffer or column and a signed overflow,
  for which C++ promises nothing.
\<close>

datatype ErrorCode =
    AssertError
  | DataTypeInvalid
  | IndexBuildError
  | UnexpectedError
  | LengthError
  | UndefinedBehaviour

datatype SegcoreError = Success | Failure ErrorCode

datatype DataType =
    NONE | BOOL | INT8 | INT16 | INT32 | INT64 | FLOAT | DOUBLE | STRING | VARCHAR
  | ARRAY | JSON | VECTOR_BINARY | VECTOR_FLOAT | VECTOR_FLOAT16 | VECTOR_BFLOAT16

subsection \<open>Primary keys\<close>

text \<open>
  \<^verbatim>\<open>PkType\<close> is \<^verbatim>\<open>std::variant<std::monostate, int64_t, std::string>\<close>. The comparison of
  two variants that \<^verbatim>\<open>std::sort\<close> uses orders by the index of the alternative first and by
  the held value second: \<^verbatim>\<open>int64_t\<close> as a signed number, \<^verbatim>\<open>std::string\<close>
  lexicographically by unsigned bytes. \<open>pk_key\<close> maps a key to a triple with exactly that
  order.
\<close>

datatype PkType = Monostate | IntPk i64 | StrPk string

fun pk_key :: "PkType \<Rightarrow> nat \<times> int \<times> string" where
  "pk_key Monostate = (0, 0, [])"
| "pk_key (IntPk i) = (1, sint i, [])"
| "pk_key (StrPk s) = (2, 0, s)"

instantiation PkType :: linorder
begin

definition less_eq_PkType :: "PkType \<Rightarrow> PkType \<Rightarrow> bool" where
  "less_eq_PkType a b \<longleftrightarrow> pk_key a \<le> pk_key b"

definition less_PkType :: "PkType \<Rightarrow> PkType \<Rightarrow> bool" where
  "less_PkType a b \<longleftrightarrow> pk_key a < pk_key b"

instance
proof
  fix x y z :: PkType
  show "(x < y) = (x \<le> y \<and> \<not> y \<le> x)"
    unfolding less_PkType_def less_eq_PkType_def by (rule less_le_not_le)
  show "x \<le> x"
    unfolding less_eq_PkType_def by (rule order_refl)
  show "x \<le> y \<Longrightarrow> y \<le> z \<Longrightarrow> x \<le> z"
    unfolding less_eq_PkType_def by (rule order_trans)
  show "x \<le> y \<Longrightarrow> y \<le> x \<Longrightarrow> x = y"
  proof -
    assume "x \<le> y" and "y \<le> x"
    then have "pk_key x = pk_key y"
      unfolding less_eq_PkType_def by (rule antisym)
    then show "x = y"
      by (cases x; cases y) (auto intro: signed_word_eqI)
  qed
  show "x \<le> y \<or> y \<le> x"
    unfolding less_eq_PkType_def by (rule linear)
qed

end

datatype IdArray = IntId "i64 list" | StrId "string list"

subsection \<open>Columns\<close>

text \<open>
  Modelled from the spec: \<^verbatim>\<open>ConcurrentVector\<close> (segcore/ConcurrentVector.h) is not under
  src/. It is the spec's ChunkedColumn (4.1): an ordered sequence of chunks of
  \<open>size_per_chunk\<close> rows whose concatenation is a dense array indexed by offset;
  \<open>get(offset)\<close> is defined for \<open>offset < length\<close> only; \<open>clear()\<close> releases all chunks;
  an append writes contiguous elements at the current length and allocates whole chunks
  as needed.
\<close>

record 'a ConcurrentVector =
  size_per_chunk :: nat
  chunks :: "'a list list"

text \<open>Modelled from the spec: the dense array of 4.1, the concatenation of the chunks.\<close>

definition cv_elems :: "'a ConcurrentVector \<Rightarrow> 'a list" where
  "cv_elems v = concat (chunks v)"

text \<open>Modelled from the spec: \<^verbatim>\<open>num_chunk()\<close>, the number of chunks the column holds (4.1).\<close>

definition num_chunk :: "'a ConcurrentVector \<Rightarrow> nat" where
  "num_chunk v = length (chunks v)"

text \<open>
  Modelled from the spec: \<open>get(offset)\<close> of 4.1, which is \<^verbatim>\<open>operator[]\<close> and \<^verbatim>\<open>get_element\<close>
  in the source: defined for \<open>offset < length\<close>; any other offset is a read outside the
  column.
\<close>

definition cv_get :: "'a ConcurrentVector \<Rightarrow> i64 \<Rightarrow> ErrorCode + 'a" where
  "cv_get v offset =
     (if 0 \<le> sint offset \<and> sint offset < int (length (cv_elems v))
      then Inr (cv_elems v ! nat (sint offset))
      else Inl UndefinedBehaviour)"

text \<open>Modelled from the spec: \<open>clear()\<close> of 4.1 releases all chunks.\<close>

definition cv_clear :: "'a ConcurrentVector \<Rightarrow> 'a ConcurrentVector" where
  "cv_clear v = v\<lparr>chunks := []\<rparr>"

text \<open>
  Modelled from the spec: \<open>append\<close> of 4.1. The offset must equal the column's current
  length (checked); the last chunk is filled up to \<open>size_per_chunk\<close> rows and whole chunks
  are allocated for the rest. A column with chunks of no rows would divide by zero.
\<close>

function chunk_list :: "nat \<Rightarrow> 'a list \<Rightarrow> 'a list list" where
  "chunk_list n xs =
     (if n = 0 \<or> xs = [] then [] else take n xs # chunk_list n (drop n xs))"
  by pat_completeness auto
termination
  by (relation "measure (\<lambda>(n, xs). length xs)") auto

declare chunk_list.simps [simp del]

definition fill_chunks :: "nat \<Rightarrow> 'a list list \<Rightarrow> 'a list \<Rightarrow> 'a list list" where
  "fill_chunks n cs src =
     (if cs = [] then chunk_list n src
      else butlast cs @ [last cs @ take (n - length (last cs)) src] @
           chunk_list n (drop (n - length (last cs)) src))"

definition cv_append :: "'a ConcurrentVector \<Rightarrow> i64 \<Rightarrow> 'a list \<Rightarrow> ErrorCode + 'a ConcurrentVector" where
  "cv_append v offset src =
     (if size_per_chunk v = 0 then Inl UndefinedBehaviour
      else if sint offset = int (length (cv_elems v))
      then Inr (v\<lparr>chunks := fill_chunks (size_per_chunk v) (chunks v) src\<rparr>)
      else Inl AssertError)"

text \<open>
  Modelled from the spec: \<^verbatim>\<open>INVALID_SEG_OFFSET\<close> (common/Consts.h) is not under src/. The
  spec uses it as the offset that stands for no row (4.7); it is taken to be \<open>-1\<close>, which
  is an offset of no column.
\<close>

definition INVALID_SEG_OFFSET :: i64 where
  "INVALID_SEG_OFFSET = - 1"

text \<open>
  \<^verbatim>\<open>VectorBase\<close> is the common base class of the typed columns; a \<^verbatim>\<open>dynamic_cast\<close> to
  \<^verbatim>\<open>ConcurrentVector<S>\<close> is a match on the constructor. Floats and doubles are kept as
  their bit patterns, a vector row as its \<^verbatim>\<open>element_sizeof\<close> bytes, an array as the list
  of its (integer) elements.
\<close>

datatype Array = Array "i64 list"

datatype ScalarField = ScalarField "i64 list"

definition output_data :: "Array \<Rightarrow> ScalarField" where
  "output_data a = (case a of Array xs \<Rightarrow> ScalarField xs)"

datatype VectorBase =
    CV_bool "bool ConcurrentVector"
  | CV_int8 "8 word ConcurrentVector"
  | CV_int16 "16 word ConcurrentVector"
  | CV_int32 "32 word ConcurrentVector"
  | CV_int64 "64 word ConcurrentVector"
  | CV_float "32 word ConcurrentVector"
  | CV_double "64 word ConcurrentVector"
  | CV_string "string ConcurrentVector"
  | CV_Json "string ConcurrentVector"
  | CV_Array "Array ConcurrentVector"
  | CV_FloatVector "u8 list ConcurrentVector"
  | CV_BinaryVector "u8 list ConcurrentVector"
  | CV_Float16Vector "u8 list ConcurrentVector"
  | CV_BFloat16Vector "u8 list ConcurrentVector"

subsection \<open>Schema, insert record, deleted record, indexing record\<close>

record FieldMeta =
  get_data_type :: DataType
  get_sizeof :: i64

definition is_vector :: "FieldMeta \<Rightarrow> bool" where
  "is_vector m = (get_data_type m \<in> {VECTOR_BINARY, VECTOR_FLOAT, VECTOR_FLOAT16, VECTOR_BFLOAT16})"

record Schema =
  schema_fields :: "FieldId \<rightharpoonup> FieldMeta"
  get_primary_field_id :: "FieldId option"

text \<open>
  Modelled from the spec: \<^verbatim>\<open>Schema::operator[]\<close> (common/Schema.h) is not under src/. The
  schema maps a field id to its meta (3); a field that is not there fails an assertion.
\<close>

definition schema_at :: "Schema \<Rightarrow> FieldId \<Rightarrow> ErrorCode + FieldMeta" where
  "schema_at s fid = (case schema_fields s fid of None \<Rightarrow> Inl AssertError | Some m \<Rightarrow> Inr m)"

text \<open>
  Modelled from the spec: \<^verbatim>\<open>InsertRecord\<close> (segcore/InsertRecord.h) is not under src/.
  From 3 and 4.3--4.5: the reservation cursor, the two system columns, one column per
  field, and the primary-key index, a multimap from key to offset that keeps duplicates
  and answers membership.
\<close>

record InsertRecord =
  reserved :: i64
  timestamps :: "Timestamp ConcurrentVector"
  row_ids :: "i64 ConcurrentVector"
  fields_data :: "FieldId \<rightharpoonup> VectorBase"
  pk2offset :: "(PkType \<times> i64) list"

text \<open>Modelled from the spec: \<open>contains(pk)\<close> of 4.3, membership in the primary-key index.\<close>

definition contain :: "InsertRecord \<Rightarrow> PkType \<Rightarrow> bool" where
  "contain ir pk = (pk \<in> set (map fst (pk2offset ir)))"

text \<open>
  Modelled from the spec: \<open>field(fid)\<close> of 4.5, \<^verbatim>\<open>get_field_data_base\<close> in the source,
  returns the column of a field, which must exist.
\<close>

definition get_field_data_base :: "InsertRecord \<Rightarrow> FieldId \<Rightarrow> ErrorCode + VectorBase" where
  "get_field_data_base ir fid =
     (case fields_data ir fid of None \<Rightarrow> Inl AssertError | Some v \<Rightarrow> Inr v)"

text \<open>
  Modelled from the spec: \<^verbatim>\<open>DeletedRecord\<close> (segcore/DeletedRecord.h) is not under src/.
  From 4.4: an append-only log of deletions; \<open>push\<close> appends a batch.
\<close>

record DeletedRecord =
  del_pks :: "PkType list"
  del_timestamps :: "Timestamp list"

text \<open>Modelled from the spec: \<open>push(pks, timestamps)\<close> of 4.4 appends the batch to the log.\<close>

definition push :: "DeletedRecord \<Rightarrow> PkType list \<Rightarrow> Timestamp list \<Rightarrow> DeletedRecord" where
  "push dr pks tss = dr\<lparr>del_pks := del_pks dr @ pks, del_timestamps := del_timestamps dr @ tss\<rparr>"

text \<open>
  Modelled from the spec: \<^verbatim>\<open>IndexingRecord\<close> (segcore/FieldIndexing.h) is not under src/.
  From 4.6: per indexed field a sync watermark, rows \<open>[0, watermark)\<close> being index-backed;
  \<open>appending_index\<close> feeds a written range to the builder of the field;
  \<open>sync_data_with_index\<close> is true when the watermark has reached the threshold. The
  source relies on the index of a synced field holding every row fed to it: \<^verbatim>\<open>Insert\<close>
  stops writing the column of a synced field and \<^verbatim>\<open>bulk_subscript\<close> reads every offset of
  a synced field from the index.
\<close>

record IndexingRecord =
  build_threshold :: nat
  sync_watermark :: "FieldId \<rightharpoonup> nat"

text \<open>
  Modelled from the spec: \<open>sync_data_with_index(field_id)\<close> of 4.6, true when the field
  has a portion index-backed, that is when its watermark has reached the threshold; a
  field without an index is never synced.
\<close>

definition SyncDataWithIndex :: "IndexingRecord \<Rightarrow> FieldId \<Rightarrow> bool" where
  "SyncDataWithIndex ir fid =
     (case sync_watermark ir fid of
        None \<Rightarrow> False
      | Some w \<Rightarrow> 0 < build_threshold ir \<and> build_threshold ir \<le> w)"

text \<open>
  Modelled from the spec: \<open>appending_index(begin, n, field_id, ...)\<close> of 4.6 feeds the rows
  \<open>[begin, begin + n)\<close> to the builder of the field. The builder holds the rows back
  until the fed range reaches \<open>build_threshold\<close> and then takes all of them: the watermark
  goes to the end of the fed range, and follows it from then on, so that the index of a
  synced field holds every row fed to it, as the source requires.
\<close>

definition AppendingIndex :: "i64 \<Rightarrow> i64 \<Rightarrow> FieldId \<Rightarrow> IndexingRecord \<Rightarrow> IndexingRecord" where
  "AppendingIndex reserved_offset num_rows fid ir =
     (case sync_watermark ir fid of
        None \<Rightarrow> ir
      | Some w \<Rightarrow>
          let fed = nat (sint reserved_offset + sint num_rows)
          in if 0 < build_threshold ir \<and> build_threshold ir \<le> fed
             then ir\<lparr>sync_watermark := (sync_watermark ir)(fid \<mapsto> max w fed)\<rparr>
             else ir)"

subsection \<open>The growing segment\<close>

text \<open>
  \<open>chunk_mutex_held\<close> says whether another thread holds \<^verbatim>\<open>chunk_mutex_\<close> at the moment of
  the call, so that \<^verbatim>\<open>try_lock\<close> fails. \<open>CalcPksSize\<close> (segcore/Utils), \<open>HasRawData\<close>
  (declared in the header) and \<open>GetDataFromIndex\<close> (the indexing record's read of rows
  from the index, 4.6) are not under src/ and are carried as functions.
\<close>

record SegmentGrowingImpl =
  schema :: Schema
  enable_interim_segment_index :: bool
  insert_record :: InsertRecord
  deleted_record :: DeletedRecord
  indexing_record :: IndexingRecord
  chunk_mutex_held :: bool
  mem_size :: int
  CalcPksSize :: "PkType list \<Rightarrow> int"
  HasRawData :: "FieldId \<Rightarrow> bool"
  GetDataFromIndex :: "FieldId \<Rightarrow> i64 list \<Rightarrow> i64 \<Rightarrow> i64 \<Rightarrow> u8 list list"

section \<open>PreInsert\<close>

text \<open>
  \<^verbatim>\<open>insert_record_.reserved\<close> is a \<^verbatim>\<open>std::atomic<int64_t>\<close>; \<^verbatim>\<open>fetch_add\<close> returns the
  value held before the addition and stores the sum, which wraps around in two's
  complement.
\<close>

definition PreInsert :: "i64 \<Rightarrow> SegmentGrowingImpl \<Rightarrow> i64 \<times> SegmentGrowingImpl" where
  "PreInsert n seg =
     (let reserved_begin = reserved (insert_record seg)
      in (reserved_begin,
          seg\<lparr>insert_record := (insert_record seg)\<lparr>reserved := reserved_begin + n\<rparr>\<rparr>))"

text \<open>The offsets \<open>[begin, begin + n)\<close> a reservation stands for, read as signed integers.\<close>

definition offsets_of :: "i64 \<Rightarrow> i64 \<Rightarrow> int set" where
  "offsets_of begin n = {sint begin ..< sint begin + sint n}"

section \<open>Delete\<close>

text \<open>
  Modelled from the spec: \<^verbatim>\<open>ParsePksFromIDs\<close> (segcore/Utils) is not under src/. From 4.7:
  it parses the ids into primary keys matching the primary field's type; from 7: a type
  outside the dispatch is \<open>DataTypeInvalid\<close>. The id array is read for \<open>n\<close> keys; an array
  of the other kind or with fewer keys is a read outside the buffer.
\<close>

definition ParsePksFromIDs :: "nat \<Rightarrow> DataType \<Rightarrow> IdArray \<Rightarrow> ErrorCode + PkType list" where
  "ParsePksFromIDs n dt ids =
     (if dt = INT64 then
        (case ids of
           IntId xs \<Rightarrow> if n \<le> length xs then Inr (map IntPk (take n xs)) else Inl UndefinedBehaviour
         | StrId _ \<Rightarrow> if n = 0 then Inr [] else Inl UndefinedBehaviour)
      else if dt = VARCHAR then
        (case ids of
           StrId xs \<Rightarrow> if n = length xs then Inr (map StrPk xs) else Inl UndefinedBehaviour
         | IntId _ \<Rightarrow> if n = 0 then Inr [] else Inl UndefinedBehaviour)
      else Inl DataTypeInvalid)"

text \<open>
  \<^verbatim>\<open>std::vector<T>(n)\<close> throws \<^verbatim>\<open>std::length_error\<close> for an \<open>n\<close> above \<^verbatim>\<open>max_size()\<close>, which
  on the 64-bit hosts the program is built for is \<^verbatim>\<open>PTRDIFF_MAX / sizeof(T)\<close>; a negative
  \<^verbatim>\<open>int64_t\<close> converts to a size above it. A \<^verbatim>\<open>PkType\<close>, the variant of nothing, an
  \<^verbatim>\<open>int64_t\<close> and a \<^verbatim>\<open>std::string\<close>, takes 40 bytes there, and a tuple of a \<^verbatim>\<open>Timestamp\<close>
  and a \<^verbatim>\<open>PkType\<close> 48.
\<close>

definition vector_max_size :: "int \<Rightarrow> int" where
  "vector_max_size sizeof_elem = (2 ^ 63 - 1) div sizeof_elem"

definition vector_too_long :: "int \<Rightarrow> int \<Rightarrow> bool" where
  "vector_too_long sizeof_elem n = (n < 0 \<or> vector_max_size sizeof_elem < n)"

text \<open>
  \<^verbatim>\<open>SegmentGrowingImpl::Delete\<close>. \<^verbatim>\<open>pks(size)\<close> and \<^verbatim>\<open>ordering(size)\<close> throw for a \<^verbatim>\<open>size\<close>
  that is negative or too long; the loop counter is an \<^verbatim>\<open>int\<close>, which overflows before
  reaching a \<^verbatim>\<open>size\<close> of \<open>2^31\<close> or more; \<^verbatim>\<open>timestamps_raw\<close> is read at \<open>0 .. size - 1\<close>.
  \<^verbatim>\<open>std::remove_if\<close> keeps the order of the entries it keeps, \<^verbatim>\<open>std::sort\<close> on the tuples
  is the lexicographic order on \<open>(ts, pk)\<close>. \<^verbatim>\<open>reserved_begin\<close> is not used by the code.
\<close>

definition Delete ::
  "SegmentGrowingImpl \<Rightarrow> i64 \<Rightarrow> i64 \<Rightarrow> IdArray \<Rightarrow> Timestamp list \<Rightarrow>
     ErrorCode + (SegcoreError \<times> SegmentGrowingImpl)" where
  "Delete seg reserved_begin n ids timestamps_raw =
     (let field_id = (case get_primary_field_id (schema seg) of None \<Rightarrow> - 1 | Some f \<Rightarrow> f)
      in if field_id = - 1 then Inl AssertError
      else case schema_at (schema seg) field_id of
        Inl e \<Rightarrow> Inl e
      | Inr field_meta \<Rightarrow>
          if vector_too_long 40 (sint n) then Inl LengthError
          else case ParsePksFromIDs (nat (sint n)) (get_data_type field_meta) ids of
            Inl e \<Rightarrow> Inl e
          | Inr pks \<Rightarrow>
              if vector_too_long 48 (sint n) then Inl LengthError
              else if 2 ^ 31 \<le> sint n \<or> length timestamps_raw < nat (sint n)
              then Inl UndefinedBehaviour
              else
                let ordering = zip (take (nat (sint n)) timestamps_raw) pks;
                    ordering = filter (\<lambda>record. contain (insert_record seg) (snd record)) ordering;
                    n' = length ordering
                in if n' = 0 then Inr (Success, seg)
                else
                  let ordering = sort ordering;
                      sort_pks = map snd ordering;
                      sort_timestamps = map fst ordering
                  in Inr (Success,
                       seg\<lparr>deleted_record := push (deleted_record seg) sort_pks sort_timestamps,
                           mem_size := mem_size seg + int n' * 8 + CalcPksSize seg sort_pks\<rparr>))"

section \<open>mask\_with\_delete\<close>

text \<open>
  Modelled from the spec: \<^verbatim>\<open>get_barrier\<close> and \<^verbatim>\<open>get_deleted_bitmap\<close> (segcore/Utils.h)
  are not under src/. From 4.4: \<open>barrier(ts)\<close> is the number of log entries with
  \<open>ts' \<le> ts\<close>; \<open>bitmap_at(del_barrier, ins_barrier, ts, insert_record)\<close> is a bitmap of
  length \<open>ins_barrier\<close> whose bit \<open>i\<close> is set iff some \<open>(pk_j, ts_j)\<close> with
  \<open>j < del_barrier\<close> has \<open>pk_j = pk(offset i)\<close>, \<open>ts_j \<ge> insert_ts(i)\<close> and
  \<open>insert_ts(i) \<le> ts\<close>. The code receives a holder that may be null or hold no bitmap,
  hence the \<open>option\<close>; the spec's bitmap is always present.
\<close>

definition get_barrier :: "DeletedRecord \<Rightarrow> Timestamp \<Rightarrow> nat" where
  "get_barrier dr ts = length (filter (\<lambda>t. t \<le> ts) (del_timestamps dr))"

text \<open>Modelled from the spec: bit \<open>i\<close> of \<open>bitmap_at\<close> (4.4), as quoted above.\<close>

definition deleted_bit ::
  "nat \<Rightarrow> DeletedRecord \<Rightarrow> InsertRecord \<Rightarrow> Timestamp \<Rightarrow> nat \<Rightarrow> bool" where
  "deleted_bit del_barrier dr ir ts i =
     (i < length (cv_elems (timestamps ir)) \<and>
      cv_elems (timestamps ir) ! i \<le> ts \<and>
      list_ex (\<lambda>(pk_j, ts_j). (pk_j, word_of_nat i) \<in> set (pk2offset ir) \<and>
                 cv_elems (timestamps ir) ! i \<le> ts_j)
        (take del_barrier (zip (del_pks dr) (del_timestamps dr))))"

text \<open>Modelled from the spec: \<open>bitmap_at\<close> (4.4), a bitmap of length \<open>ins_barrier\<close>.\<close>

definition get_deleted_bitmap ::
  "nat \<Rightarrow> i64 \<Rightarrow> DeletedRecord \<Rightarrow> InsertRecord \<Rightarrow> Timestamp \<Rightarrow> BitsetType option" where
  "get_deleted_bitmap del_barrier ins_barrier dr ir ts =
     Some (map (deleted_bit del_barrier dr ir ts) [0 ..< nat (sint ins_barrier)])"

text \<open>
  \<^verbatim>\<open>SegmentGrowingImpl::mask_with_delete\<close>. The bitset is updated in place by
  \<^verbatim>\<open>bitset |= delete_bitset\<close>; a failed assertion throws before that line, so on \<open>Inl\<close> the
  caller's bitset is as it was.
\<close>

definition mask_with_delete ::
  "SegmentGrowingImpl \<Rightarrow> BitsetType \<Rightarrow> i64 \<Rightarrow> Timestamp \<Rightarrow> ErrorCode + BitsetType" where
  "mask_with_delete seg bitset ins_barrier timestamp =
     (let del_barrier = get_barrier (deleted_record seg) timestamp
      in if del_barrier = 0 then Inr bitset
      else case get_deleted_bitmap del_barrier ins_barrier (deleted_record seg)
                  (insert_record seg) timestamp of
        None \<Rightarrow> Inr bitset
      | Some delete_bitset \<Rightarrow>
          if length delete_bitset = length bitset
          then Inr (map2 (\<or>) bitset delete_bitset)
          else Inl AssertError)"

text \<open>The caller's bitset once the call is over, whether it returned or threw.\<close>

definition bitset_after :: "BitsetType \<Rightarrow> ErrorCode + BitsetType \<Rightarrow> BitsetType" where
  "bitset_after bitset outcome = (case outcome of Inl e \<Rightarrow> bitset | Inr bitset' \<Rightarrow> bitset')"

section \<open>Releasing chunks\<close>

text \<open>
  \<^verbatim>\<open>SegmentGrowingImpl::try_remove_chunks\<close>. The \<^verbatim>\<open>dynamic_cast\<close> succeeds for a float-vector
  column only; \<^verbatim>\<open>clear()\<close> runs between a successful \<^verbatim>\<open>try_lock\<close> and the \<^verbatim>\<open>unlock\<close>, so the
  mutex is as it was afterwards.
\<close>

definition try_remove_chunks ::
  "FieldId \<Rightarrow> SegmentGrowingImpl \<Rightarrow> ErrorCode + SegmentGrowingImpl" where
  "try_remove_chunks fieldId seg =
     (if SyncDataWithIndex (indexing_record seg) fieldId then
        (case get_field_data_base (insert_record seg) fieldId of
           Inl e \<Rightarrow> Inl e
         | Inr base \<Rightarrow>
             (case base of
                CV_FloatVector vec_data_base \<Rightarrow>
                  if num_chunk vec_data_base > 0 \<and> \<not> chunk_mutex_held seg
                  then Inr (seg\<lparr>insert_record := (insert_record seg)
                              \<lparr>fields_data := (fields_data (insert_record seg))
                                 (fieldId \<mapsto> CV_FloatVector (cv_clear vec_data_base))\<rparr>\<rparr>)
                  else Inr seg
              | _ \<Rightarrow> Inr seg))
      else Inr seg)"

text \<open>
  The data of one field in an insert batch and the result of a bulk read are both the
  protobuf \<^verbatim>\<open>DataArray\<close>: one repeated field per kind of value, \<^verbatim>\<open>int8\<close> and \<^verbatim>\<open>int16\<close>
  travelling as \<^verbatim>\<open>int32\<close>.
\<close>

datatype DataArray =
    bool_data "bool list"
  | int_data "32 word list"
  | long_data "64 word list"
  | float_data "32 word list"
  | double_data "64 word list"
  | string_data "string list"
  | json_data "string list"
  | array_data "ScalarField list"
  | float_vector "u8 list list"
  | binary_vector "u8 list list"
  | float16_vector "u8 list list"
  | bfloat16_vector "u8 list list"

text \<open>The array a column keeps for an array value of the batch.\<close>

definition input_data :: "ScalarField \<Rightarrow> Array" where
  "input_data f = (case f of ScalarField xs \<Rightarrow> Array xs)"

text \<open>
  Modelled from the spec: \<^verbatim>\<open>set_data_raw\<close> (segcore/ConcurrentVector.h) is not under src/.
  From 4.1 it is the column's append, at \<open>reserved_offset\<close>, of the first \<open>num_rows\<close>
  elements of the batch; the data must be of the column's kind, and a batch of fewer
  elements would be read past its end.
\<close>

definition cv_write ::
  "'a ConcurrentVector \<Rightarrow> i64 \<Rightarrow> i64 \<Rightarrow> 'a list \<Rightarrow> ErrorCode + 'a ConcurrentVector" where
  "cv_write v offset num_rows src =
     (if sint num_rows < 0 \<or> int (length src) < sint num_rows then Inl UndefinedBehaviour
      else cv_append v offset (take (nat (sint num_rows)) src))"

definition set_data_raw ::
  "VectorBase \<Rightarrow> i64 \<Rightarrow> i64 \<Rightarrow> DataArray \<Rightarrow> ErrorCode + VectorBase" where
  "set_data_raw base offset num_rows data =
     (case base of
        CV_bool v \<Rightarrow>
          (case data of
             bool_data xs \<Rightarrow> map_sum id CV_bool (cv_write v offset num_rows xs)
           | _ \<Rightarrow> Inl AssertError)
      | CV_int8 v \<Rightarrow>
          (case data of
             int_data xs \<Rightarrow> map_sum id CV_int8 (cv_write v offset num_rows (map ucast xs))
           | _ \<Rightarrow> Inl AssertError)
      | CV_int16 v \<Rightarrow>
          (case data of
             int_data xs \<Rightarrow> map_sum id CV_int16 (cv_write v offset num_rows (map ucast xs))
           | _ \<Rightarrow> Inl AssertError)
      | CV_int32 v \<Rightarrow>
          (case data of
             int_data xs \<Rightarrow> map_sum id CV_int32 (cv_write v offset num_rows xs)
           | _ \<Rightarrow> Inl AssertError)
      | CV_int64 v \<Rightarrow>
          (case data of
             long_data xs \<Rightarrow> map_sum id CV_int64 (cv_write v offset num_rows xs)
           | _ \<Rightarrow> Inl AssertError)
      | CV_float v \<Rightarrow>
          (case data of
             float_data xs \<Rightarrow> map_sum id CV_float (cv_write v offset num_rows xs)
           | _ \<Rightarrow> Inl AssertError)
      | CV_double v \<Rightarrow>
          (case data of
             double_data xs \<Rightarrow> map_sum id CV_double (cv_write v offset num_rows xs)
           | _ \<Rightarrow> Inl AssertError)
      | CV_string v \<Rightarrow>
          (case data of
             string_data xs \<Rightarrow> map_sum id CV_string (cv_write v offset num_rows xs)
           | _ \<Rightarrow> Inl AssertError)
      | CV_Json v \<Rightarrow>
          (case data of
             json_data xs \<Rightarrow> map_sum id CV_Json (cv_write v offset num_rows xs)
           | _ \<Rightarrow> Inl AssertError)
      | CV_Array v \<Rightarrow>
          (case data of
             array_data xs \<Rightarrow> map_sum id CV_Array (cv_write v offset num_rows (map input_data xs))
           | _ \<Rightarrow> Inl AssertError)
      | CV_FloatVector v \<Rightarrow>
          (case data of
             float_vector xs \<Rightarrow> map_sum id CV_FloatVector (cv_write v offset num_rows xs)
           | _ \<Rightarrow> Inl AssertError)
      | CV_BinaryVector v \<Rightarrow>
          (case data of
             binary_vector xs \<Rightarrow> map_sum id CV_BinaryVector (cv_write v offset num_rows xs)
           | _ \<Rightarrow> Inl AssertError)
      | CV_Float16Vector v \<Rightarrow>
          (case data of
             float16_vector xs \<Rightarrow> map_sum id CV_Float16Vector (cv_write v offset num_rows xs)
           | _ \<Rightarrow> Inl AssertError)
      | CV_BFloat16Vector v \<Rightarrow>
          (case data of
             bfloat16_vector xs \<Rightarrow> map_sum id CV_BFloat16Vector (cv_write v offset num_rows xs)
           | _ \<Rightarrow> Inl AssertError))"

text \<open>
  What \<^verbatim>\<open>Insert\<close> does for one user field of the batch, the body of its loop over the
  schema (\<^verbatim>\<open>LoadFieldData\<close> does the same per field): the column is written unless the
  field is already synced with the index, the range is fed to the interim index when
  that is enabled, and \<^verbatim>\<open>try_remove_chunks\<close> is called last. \<open>Insert_field_write\<close> is the
  body up to that call. The size statistics updated in between are left out.
\<close>

definition Insert_field_write ::
  "i64 \<Rightarrow> i64 \<Rightarrow> FieldId \<Rightarrow> DataArray \<Rightarrow> SegmentGrowingImpl \<Rightarrow> ErrorCode + SegmentGrowingImpl" where
  "Insert_field_write reserved_offset num_rows field_id data seg =
     (case
        (if \<not> SyncDataWithIndex (indexing_record seg) field_id then
           (case get_field_data_base (insert_record seg) field_id of
              Inl e \<Rightarrow> Inl e
            | Inr base \<Rightarrow>
                (case set_data_raw base reserved_offset num_rows data of
                   Inl e \<Rightarrow> Inl e
                 | Inr base' \<Rightarrow>
                     Inr (seg\<lparr>insert_record := (insert_record seg)
                            \<lparr>fields_data := (fields_data (insert_record seg))(field_id \<mapsto> base')\<rparr>\<rparr>)))
         else Inr seg)
      of
        Inl e \<Rightarrow> Inl e
      | Inr seg1 \<Rightarrow>
          if enable_interim_segment_index seg1
          then Inr (seg1\<lparr>indexing_record :=
                      AppendingIndex reserved_offset num_rows field_id (indexing_record seg1)\<rparr>)
          else Inr seg1)"

definition Insert_field ::
  "i64 \<Rightarrow> i64 \<Rightarrow> FieldId \<Rightarrow> DataArray \<Rightarrow> SegmentGrowingImpl \<Rightarrow> ErrorCode + SegmentGrowingImpl" where
  "Insert_field reserved_offset num_rows field_id data seg =
     (case Insert_field_write reserved_offset num_rows field_id data seg of
        Inl e \<Rightarrow> Inl e
      | Inr seg1 \<Rightarrow> try_remove_chunks field_id seg1)"

text \<open>
  The steps of a segment that touch its columns: the write of a field's data with the
  feeding of the index, and the release of a column. An \<^verbatim>\<open>Insert\<close> takes one step of each
  kind per field.
\<close>

inductive segment_step :: "SegmentGrowingImpl \<Rightarrow> SegmentGrowingImpl \<Rightarrow> bool" where
  write_step:
    "Insert_field_write reserved_offset num_rows field_id data seg = Inr seg' \<Longrightarrow>
     segment_step seg seg'"
| remove_step:
    "try_remove_chunks field_id seg = Inr seg' \<Longrightarrow> segment_step seg seg'"

text \<open>
  The number of chunks a field's column holds, the rows a chunk has room for, and the
  number of rows in the column.
\<close>

fun vb_num_chunk :: "VectorBase \<Rightarrow> nat" where
  "vb_num_chunk (CV_bool v) = num_chunk v"
| "vb_num_chunk (CV_int8 v) = num_chunk v"
| "vb_num_chunk (CV_int16 v) = num_chunk v"
| "vb_num_chunk (CV_int32 v) = num_chunk v"
| "vb_num_chunk (CV_int64 v) = num_chunk v"
| "vb_num_chunk (CV_float v) = num_chunk v"
| "vb_num_chunk (CV_double v) = num_chunk v"
| "vb_num_chunk (CV_string v) = num_chunk v"
| "vb_num_chunk (CV_Json v) = num_chunk v"
| "vb_num_chunk (CV_Array v) = num_chunk v"
| "vb_num_chunk (CV_FloatVector v) = num_chunk v"
| "vb_num_chunk (CV_BinaryVector v) = num_chunk v"
| "vb_num_chunk (CV_Float16Vector v) = num_chunk v"
| "vb_num_chunk (CV_BFloat16Vector v) = num_chunk v"

fun vb_size_per_chunk :: "VectorBase \<Rightarrow> nat" where
  "vb_size_per_chunk (CV_bool v) = size_per_chunk v"
| "vb_size_per_chunk (CV_int8 v) = size_per_chunk v"
| "vb_size_per_chunk (CV_int16 v) = size_per_chunk v"
| "vb_size_per_chunk (CV_int32 v) = size_per_chunk v"
| "vb_size_per_chunk (CV_int64 v) = size_per_chunk v"
| "vb_size_per_chunk (CV_float v) = size_per_chunk v"
| "vb_size_per_chunk (CV_double v) = size_per_chunk v"
| "vb_size_per_chunk (CV_string v) = size_per_chunk v"
| "vb_size_per_chunk (CV_Json v) = size_per_chunk v"
| "vb_size_per_chunk (CV_Array v) = size_per_chunk v"
| "vb_size_per_chunk (CV_FloatVector v) = size_per_chunk v"
| "vb_size_per_chunk (CV_BinaryVector v) = size_per_chunk v"
| "vb_size_per_chunk (CV_Float16Vector v) = size_per_chunk v"
| "vb_size_per_chunk (CV_BFloat16Vector v) = size_per_chunk v"

fun vb_length :: "VectorBase \<Rightarrow> nat" where
  "vb_length (CV_bool v) = length (cv_elems v)"
| "vb_length (CV_int8 v) = length (cv_elems v)"
| "vb_length (CV_int16 v) = length (cv_elems v)"
| "vb_length (CV_int32 v) = length (cv_elems v)"
| "vb_length (CV_int64 v) = length (cv_elems v)"
| "vb_length (CV_float v) = length (cv_elems v)"
| "vb_length (CV_double v) = length (cv_elems v)"
| "vb_length (CV_string v) = length (cv_elems v)"
| "vb_length (CV_Json v) = length (cv_elems v)"
| "vb_length (CV_Array v) = length (cv_elems v)"
| "vb_length (CV_FloatVector v) = length (cv_elems v)"
| "vb_length (CV_BinaryVector v) = length (cv_elems v)"
| "vb_length (CV_Float16Vector v) = length (cv_elems v)"
| "vb_length (CV_BFloat16Vector v) = length (cv_elems v)"

definition column_chunks :: "SegmentGrowingImpl \<Rightarrow> FieldId \<Rightarrow> nat" where
  "column_chunks seg fid =
     (case fields_data (insert_record seg) fid of None \<Rightarrow> 0 | Some base \<Rightarrow> vb_num_chunk base)"

definition column_chunk_rows :: "SegmentGrowingImpl \<Rightarrow> FieldId \<Rightarrow> nat" where
  "column_chunk_rows seg fid =
     (case fields_data (insert_record seg) fid of None \<Rightarrow> 0 | Some base \<Rightarrow> vb_size_per_chunk base)"

definition column_rows :: "SegmentGrowingImpl \<Rightarrow> FieldId \<Rightarrow> nat" where
  "column_rows seg fid =
     (case fields_data (insert_record seg) fid of None \<Rightarrow> 0 | Some base \<Rightarrow> vb_length base)"

definition watermark_of :: "SegmentGrowingImpl \<Rightarrow> FieldId \<Rightarrow> nat" where
  "watermark_of seg fid =
     (case sync_watermark (indexing_record seg) fid of None \<Rightarrow> 0 | Some w \<Rightarrow> w)"

text \<open>
  The release rule of the spec's data model for one step from \<open>seg\<close> to \<open>seg'\<close>: every
  chunk of the field that \<open>seg\<close> holds is either still held by \<open>seg'\<close>, or the field is
  synced in \<open>seg\<close> and the rows of the chunk, which end at \<open>(c + 1) * chunk_rows\<close> or at
  the end of the column, all lie below the sync watermark.
\<close>

definition released_only_below_watermark ::
  "FieldId \<Rightarrow> SegmentGrowingImpl \<Rightarrow> SegmentGrowingImpl \<Rightarrow> bool" where
  "released_only_below_watermark fid seg seg' =
     list_all
       (\<lambda>c. c < column_chunks seg' fid \<or>
            (SyncDataWithIndex (indexing_record seg) fid \<and>
             min ((c + 1) * column_chunk_rows seg fid) (column_rows seg fid)
               \<le> watermark_of seg fid))
       [0 ..< column_chunks seg fid]"

text \<open>
  The states of a segment as far as one field is concerned: those in which the column of
  the field has no row yet and nothing of the field is in the index, as in a new
  segment, and those the steps lead to from there.
\<close>

inductive reachable :: "FieldId \<Rightarrow> SegmentGrowingImpl \<Rightarrow> bool" for fid where
  new_segment:
    "column_rows seg fid = 0 \<Longrightarrow> watermark_of seg fid = 0 \<Longrightarrow> reachable fid seg"
| after_step:
    "reachable fid seg \<Longrightarrow> segment_step seg seg' \<Longrightarrow> reachable fid seg'"

text \<open>
  What the steps keep true of a field: once the field is synced, every row of its column
  lies below the sync watermark.
\<close>

definition column_below_watermark :: "FieldId \<Rightarrow> SegmentGrowingImpl \<Rightarrow> bool" where
  "column_below_watermark fid seg =
     (SyncDataWithIndex (indexing_record seg) fid \<longrightarrow> column_rows seg fid \<le> watermark_of seg fid)"

section \<open>bulk\_subscript\<close>

text \<open>
  The output of a bulk read is a list of slots, one per requested offset; for a vector
  field a slot is the \<^verbatim>\<open>element_sizeof\<close> bytes of a row. The four templates follow. An
  access beyond the offsets or the slots passed in is a read or write outside a buffer.

  The vector template, \<^verbatim>\<open>bulk_subscript_impl<T>(field_id, element_sizeof, ...)\<close>: the loop
  of \<^verbatim>\<open>copy_from_chunk\<close> tests each offset against \<^verbatim>\<open>INVALID_SEG_OFFSET\<close> and fills the slot
  with zeros, or copies the row. Its counter is an \<^verbatim>\<open>int\<close>. The lock guard taken around it
  is not part of this sequential model.
\<close>

fun copy_from_chunk ::
  "nat \<Rightarrow> u8 list ConcurrentVector \<Rightarrow> i64 list \<Rightarrow> nat \<Rightarrow> u8 list list \<Rightarrow>
     ErrorCode + u8 list list" where
  "copy_from_chunk element_sizeof vec [] i output = Inr output"
| "copy_from_chunk element_sizeof vec (offset # rest) i output =
     (if length output \<le> i then Inl UndefinedBehaviour
      else if offset = INVALID_SEG_OFFSET
      then copy_from_chunk element_sizeof vec rest (Suc i)
             (output[i := replicate element_sizeof 0])
      else case cv_get vec offset of
        Inl e \<Rightarrow> Inl e
      | Inr src \<Rightarrow>
          if length src < element_sizeof then Inl UndefinedBehaviour
          else copy_from_chunk element_sizeof vec rest (Suc i)
                 (output[i := take element_sizeof src]))"

definition bulk_subscript_impl_vector ::
  "SegmentGrowingImpl \<Rightarrow> FieldId \<Rightarrow> i64 \<Rightarrow> u8 list ConcurrentVector option \<Rightarrow> i64 list \<Rightarrow>
     i64 \<Rightarrow> u8 list list \<Rightarrow> ErrorCode + u8 list list" where
  "bulk_subscript_impl_vector seg field_id element_sizeof vec_ptr seg_offsets count' output_raw =
     (case vec_ptr of
        None \<Rightarrow> Inl AssertError
      | Some vec \<Rightarrow>
          if HasRawData seg field_id then
            (if SyncDataWithIndex (indexing_record seg) field_id
             then Inr (GetDataFromIndex seg field_id seg_offsets count' element_sizeof)
             else if 2 ^ 31 \<le> sint count' \<or> length seg_offsets < nat (sint count')
             then Inl UndefinedBehaviour
             else copy_from_chunk (nat (sint element_sizeof)) vec
                    (take (nat (sint count')) seg_offsets) 0 output_raw)
          else Inl AssertError)"

text \<open>
  The scalar template, \<^verbatim>\<open>bulk_subscript_impl<S, T>(vec_raw, seg_offsets, count, output)\<close>:
  \<^verbatim>\<open>output[i] = vec[offset]\<close> for every \<open>i\<close>, with no test of the offset; \<open>conv\<close> is the
  conversion from the column's \<open>S\<close> to the output's \<open>T\<close>.
\<close>

fun subscript_loop ::
  "('s \<Rightarrow> 't) \<Rightarrow> 's ConcurrentVector \<Rightarrow> i64 list \<Rightarrow> nat \<Rightarrow> 't list \<Rightarrow> ErrorCode + 't list" where
  "subscript_loop conv vec [] i output = Inr output"
| "subscript_loop conv vec (offset # rest) i output =
     (case cv_get vec offset of
        Inl e \<Rightarrow> Inl e
      | Inr v \<Rightarrow>
          if length output \<le> i then Inl UndefinedBehaviour
          else subscript_loop conv vec rest (Suc i) (output[i := conv v]))"

definition bulk_subscript_impl ::
  "('s \<Rightarrow> 't) \<Rightarrow> 's ConcurrentVector option \<Rightarrow> i64 list \<Rightarrow> i64 \<Rightarrow> 't list \<Rightarrow>
     ErrorCode + 't list" where
  "bulk_subscript_impl conv vec_ptr seg_offsets count' output =
     (case vec_ptr of
        None \<Rightarrow> Inl AssertError
      | Some vec \<Rightarrow>
          if length seg_offsets < nat (sint count') then Inl UndefinedBehaviour
          else subscript_loop conv vec (take (nat (sint count')) seg_offsets) 0 output)"

text \<open>
  \<^verbatim>\<open>bulk_subscript_ptr_impl<S, T>\<close>, used for strings and JSON: the same loop into a
  repeated pointer field, and no assertion on the cast, so a column of another kind is a
  null dereference.
\<close>

definition bulk_subscript_ptr_impl ::
  "('s \<Rightarrow> 't) \<Rightarrow> 's ConcurrentVector option \<Rightarrow> i64 list \<Rightarrow> i64 \<Rightarrow> 't list \<Rightarrow>
     ErrorCode + 't list" where
  "bulk_subscript_ptr_impl conv vec seg_offsets count' dst =
     (case vec of
        None \<Rightarrow> Inl UndefinedBehaviour
      | Some src \<Rightarrow>
          if length seg_offsets < nat (sint count') then Inl UndefinedBehaviour
          else subscript_loop conv src (take (nat (sint count')) seg_offsets) 0 dst)"

text \<open>
  \<^verbatim>\<open>bulk_subscript_array_impl\<close>: a slot is assigned only when its offset is not
  \<^verbatim>\<open>INVALID_SEG_OFFSET\<close>, and otherwise stays as the caller created it.
\<close>

fun array_loop ::
  "Array ConcurrentVector \<Rightarrow> i64 list \<Rightarrow> nat \<Rightarrow> ScalarField list \<Rightarrow>
     ErrorCode + ScalarField list" where
  "array_loop vec [] i dst = Inr dst"
| "array_loop vec (offset # rest) i dst =
     (if offset \<noteq> INVALID_SEG_OFFSET then
        (case cv_get vec offset of
           Inl e \<Rightarrow> Inl e
         | Inr a \<Rightarrow>
             if length dst \<le> i then Inl UndefinedBehaviour
             else array_loop vec rest (Suc i) (dst[i := output_data a]))
      else array_loop vec rest (Suc i) dst)"

definition bulk_subscript_array_impl ::
  "Array ConcurrentVector option \<Rightarrow> i64 list \<Rightarrow> i64 \<Rightarrow> ScalarField list \<Rightarrow>
     ErrorCode + ScalarField list" where
  "bulk_subscript_array_impl vec_ptr seg_offsets count' dst =
     (case vec_ptr of
        None \<Rightarrow> Inl AssertError
      | Some vec \<Rightarrow>
          if length seg_offsets < nat (sint count') then Inl UndefinedBehaviour
          else array_loop vec (take (nat (sint count')) seg_offsets) 0 dst)"

text \<open>
  \<^verbatim>\<open>bulk_subscript(SystemFieldType, ...)\<close> reads the two system columns with the scalar
  template.
\<close>

datatype SystemFieldType = Invalid | RowId | Timestamp

definition bulk_subscript_system ::
  "SegmentGrowingImpl \<Rightarrow> SystemFieldType \<Rightarrow> i64 list \<Rightarrow> i64 \<Rightarrow> 64 word list \<Rightarrow>
     ErrorCode + 64 word list" where
  "bulk_subscript_system seg system_type seg_offsets count' output =
     (case system_type of
        Timestamp \<Rightarrow>
          bulk_subscript_impl id (Some (timestamps (insert_record seg))) seg_offsets count' output
      | RowId \<Rightarrow>
          bulk_subscript_impl id (Some (row_ids (insert_record seg))) seg_offsets count' output
      | Invalid \<Rightarrow> Inl DataTypeInvalid)"

text \<open>
  \<^verbatim>\<open>bulk_subscript(FieldId, ...)\<close>, the dispatch on the field's type. The result arrays come
  from \<^verbatim>\<open>CreateVectorDataArray\<close> and \<^verbatim>\<open>CreateScalarDataArray\<close> (segcore/Utils, not under
  src/), which make \<open>count\<close> slots holding the default value of their kind: false, zero,
  the empty string, the empty array, or \<^verbatim>\<open>element_sizeof\<close> zero bytes.
\<close>

definition bulk_subscript ::
  "SegmentGrowingImpl \<Rightarrow> FieldId \<Rightarrow> i64 list \<Rightarrow> i64 \<Rightarrow> ErrorCode + DataArray" where
  "bulk_subscript seg field_id seg_offsets count' =
     (case get_field_data_base (insert_record seg) field_id of
        Inl e \<Rightarrow> Inl e
      | Inr vec_ptr \<Rightarrow>
     (case schema_at (schema seg) field_id of
        Inl e \<Rightarrow> Inl e
      | Inr field_meta \<Rightarrow>
          let n = nat (sint count');
              rows = replicate n (replicate (nat (sint (get_sizeof field_meta))) 0)
          in
          if is_vector field_meta then
            (if get_data_type field_meta = VECTOR_FLOAT then
               map_sum id float_vector
                 (bulk_subscript_impl_vector seg field_id (get_sizeof field_meta)
                    (case vec_ptr of CV_FloatVector v \<Rightarrow> Some v | _ \<Rightarrow> None)
                    seg_offsets count' rows)
             else if get_data_type field_meta = VECTOR_BINARY then
               map_sum id binary_vector
                 (bulk_subscript_impl_vector seg field_id (get_sizeof field_meta)
                    (case vec_ptr of CV_BinaryVector v \<Rightarrow> Some v | _ \<Rightarrow> None)
                    seg_offsets count' rows)
             else if get_data_type field_meta = VECTOR_FLOAT16 then
               map_sum id float16_vector
                 (bulk_subscript_impl_vector seg field_id (get_sizeof field_meta)
                    (case vec_ptr of CV_Float16Vector v \<Rightarrow> Some v | _ \<Rightarrow> None)
                    seg_offsets count' rows)
             else if get_data_type field_meta = VECTOR_BFLOAT16 then
               map_sum id bfloat16_vector
                 (bulk_subscript_impl_vector seg field_id (get_sizeof field_meta)
                    (case vec_ptr of CV_BFloat16Vector v \<Rightarrow> Some v | _ \<Rightarrow> None)
                    seg_offsets count' rows)
             else Inl DataTypeInvalid)
          else
            (case get_data_type field_meta of
               BOOL \<Rightarrow>
                 map_sum id bool_data
                   (bulk_subscript_impl id (case vec_ptr of CV_bool v \<Rightarrow> Some v | _ \<Rightarrow> None)
                      seg_offsets count' (replicate n False))
             | INT8 \<Rightarrow>
                 map_sum id int_data
                   (bulk_subscript_impl scast (case vec_ptr of CV_int8 v \<Rightarrow> Some v | _ \<Rightarrow> None)
                      seg_offsets count' (replicate n 0))
             | INT16 \<Rightarrow>
                 map_sum id int_data
                   (bulk_subscript_impl scast (case vec_ptr of CV_int16 v \<Rightarrow> Some v | _ \<Rightarrow> None)
                      seg_offsets count' (replicate n 0))
             | INT32 \<Rightarrow>
                 map_sum id int_data
                   (bulk_subscript_impl id (case vec_ptr of CV_int32 v \<Rightarrow> Some v | _ \<Rightarrow> None)
                      seg_offsets count' (replicate n 0))
             | INT64 \<Rightarrow>
                 map_sum id long_data
                   (bulk_subscript_impl id (case vec_ptr of CV_int64 v \<Rightarrow> Some v | _ \<Rightarrow> None)
                      seg_offsets count' (replicate n 0))
             | FLOAT \<Rightarrow>
                 map_sum id float_data
                   (bulk_subscript_impl id (case vec_ptr of CV_float v \<Rightarrow> Some v | _ \<Rightarrow> None)
                      seg_offsets count' (replicate n 0))
             | DOUBLE \<Rightarrow>
                 map_sum id double_data
                   (bulk_subscript_impl id (case vec_ptr of CV_double v \<Rightarrow> Some v | _ \<Rightarrow> None)
                      seg_offsets count' (replicate n 0))
             | VARCHAR \<Rightarrow>
                 map_sum id string_data
                   (bulk_subscript_ptr_impl id (case vec_ptr of CV_string v \<Rightarrow> Some v | _ \<Rightarrow> None)
                      seg_offsets count' (replicate n []))
             | JSON \<Rightarrow>
                 map_sum id json_data
                   (bulk_subscript_ptr_impl id (case vec_ptr of CV_Json v \<Rightarrow> Some v | _ \<Rightarrow> None)
                      seg_offsets count' (replicate n []))
             | ARRAY \<Rightarrow>
                 map_sum id array_data
                   (bulk_subscript_array_impl (case vec_ptr of CV_Array v \<Rightarrow> Some v | _ \<Rightarrow> None)
                      seg_offsets count' (replicate n (ScalarField [])))
             | _ \<Rightarrow> Inl DataTypeInvalid)))"

section \<open>VectorDiskAnnIndex\<close>

subsection \<open>Collaborators\<close>

text \<open>
  Modelled from the spec: the local chunk manager (storage/LocalChunkManager) is not under
  src/. From 6: \<open>Exist\<close>, \<open>RemoveDir\<close>, \<open>CreateFile\<close> and \<open>Write(path, offset, buf, len)\<close>.
  The local store is a map from the path of a file to its bytes; a directory is the set of
  files whose path lies inside it. \<open>Write\<close> puts \<open>len\<close> bytes of the buffer at \<open>offset\<close>
  and leaves every other byte of the file as it was, filling a gap with zeros; the three
  builds only write to a file they have made sure exists.
\<close>

type_synonym LocalFS = "string \<rightharpoonup> u8 list"

text \<open>Modelled from the spec: \<open>Exist\<close> of 6, asked of a file path.\<close>

definition Exist :: "LocalFS \<Rightarrow> string \<Rightarrow> bool" where
  "Exist fs path = (fs path \<noteq> None)"

text \<open>Modelled from the spec: \<open>CreateFile\<close> of 6 makes an empty file.\<close>

definition CreateFile :: "string \<Rightarrow> LocalFS \<Rightarrow> LocalFS" where
  "CreateFile path fs = fs(path \<mapsto> [])"

text \<open>
  Modelled from the spec: \<open>RemoveDir\<close> of 6 removes a directory with all it holds. A path
  lies inside a directory when it is the directory or continues it after a slash.
\<close>

definition inside :: "string \<Rightarrow> string \<Rightarrow> bool" where
  "inside dir path =
     (path = dir \<or>
      prefix (if dir \<noteq> [] \<and> last dir = CHR ''/'' then dir else dir @ ''/'') path)"

definition RemoveDir :: "string \<Rightarrow> LocalFS \<Rightarrow> LocalFS" where
  "RemoveDir dir fs = (\<lambda>path. if inside dir path then None else fs path)"

text \<open>
  Modelled from the spec: \<open>Write(path, offset, buf, len)\<close> of 6 puts the first \<open>len\<close>
  bytes of the buffer at \<open>offset\<close> of the file.
\<close>

definition write_at :: "u8 list \<Rightarrow> nat \<Rightarrow> u8 list \<Rightarrow> u8 list" where
  "write_at content offset bytes =
     take offset (content @ replicate (offset - length content) 0) @ bytes @
     drop (offset + length bytes) content"

definition Write :: "string \<Rightarrow> nat \<Rightarrow> u8 list \<Rightarrow> nat \<Rightarrow> LocalFS \<Rightarrow> LocalFS" where
  "Write path offset buf len fs =
     fs(path \<mapsto> write_at (case fs path of None \<Rightarrow> [] | Some content \<Rightarrow> content) offset (take len buf))"

text \<open>
  Modelled from the spec: \<^verbatim>\<open>GetValueFromConfig\<close> (index/Utils.h), the JSON configuration
  and the key macros (index/Meta.h) are not under src/. The configuration is a JSON
  object; a key is read as the value of the asked type if it is there, and the keys carry
  the names of 4.8 and 6.
\<close>

datatype JsonValue =
    JString string
  | JInt int
  | JFloat f32
  | JStrings "string list"
  | JOptFields "(int \<times> string) list"

type_synonym Config = "string \<rightharpoonup> JsonValue"

definition GetValueFromConfig_string :: "Config \<Rightarrow> string \<Rightarrow> string option" where
  "GetValueFromConfig_string cfg key = (case cfg key of Some (JString v) \<Rightarrow> Some v | _ \<Rightarrow> None)"

definition GetValueFromConfig_strings :: "Config \<Rightarrow> string \<Rightarrow> string list option" where
  "GetValueFromConfig_strings cfg key = (case cfg key of Some (JStrings v) \<Rightarrow> Some v | _ \<Rightarrow> None)"

definition GetValueFromConfig_OptFieldT :: "Config \<Rightarrow> string \<Rightarrow> (int \<times> string) list option" where
  "GetValueFromConfig_OptFieldT cfg key = (case cfg key of Some (JOptFields v) \<Rightarrow> Some v | _ \<Rightarrow> None)"

definition GetValueFromConfig_float :: "Config \<Rightarrow> string \<Rightarrow> f32 option" where
  "GetValueFromConfig_float cfg key = (case cfg key of Some (JFloat v) \<Rightarrow> Some v | _ \<Rightarrow> None)"

definition CheckKeyInConfig :: "Config \<Rightarrow> string \<Rightarrow> bool" where
  "CheckKeyInConfig cfg key = (cfg key \<noteq> None)"

definition erase :: "Config \<Rightarrow> string \<Rightarrow> Config" where
  "erase cfg key = cfg(key := None)"

definition DISK_ANN_RAW_DATA_PATH :: string where "DISK_ANN_RAW_DATA_PATH = ''raw_data_path''"
definition DISK_ANN_PREFIX_PATH :: string where "DISK_ANN_PREFIX_PATH = ''prefix_path''"
definition DISK_ANN_BUILD_THREAD_NUM :: string where "DISK_ANN_BUILD_THREAD_NUM = ''build_thread_num''"
definition DISK_ANN_THREADS_NUM :: string where "DISK_ANN_THREADS_NUM = ''threads_num''"
definition VEC_OPT_FIELDS :: string where "VEC_OPT_FIELDS = ''vec_opt_fields''"
definition VEC_OPT_FIELDS_PATH :: string where "VEC_OPT_FIELDS_PATH = ''vec_opt_fields_path''"
definition INDEX_DISKANN :: string where "INDEX_DISKANN = ''DISKANN''"
definition TOPK :: string where "TOPK = ''topk''"
definition METRIC_TYPE :: string where "METRIC_TYPE = ''metric_type''"
definition DISK_ANN_QUERY_LIST :: string where "DISK_ANN_QUERY_LIST = ''query_list''"
definition DISK_ANN_SEARCH_LIST_SIZE :: string where "DISK_ANN_SEARCH_LIST_SIZE = ''search_list_size''"
definition DISK_ANN_QUERY_BEAMWIDTH :: string where "DISK_ANN_QUERY_BEAMWIDTH = ''beamwidth''"
definition DISK_ANN_PQ_CODE_BUDGET :: string where "DISK_ANN_PQ_CODE_BUDGET = ''pq_code_budget''"
definition RADIUS :: string where "RADIUS = ''radius''"
definition RANGE_FILTER :: string where "RANGE_FILTER = ''range_filter''"

text \<open>
  \<^verbatim>\<open>std::atoi\<close>, which the C library the program is built with computes as
  \<^verbatim>\<open>(int) strtol(s, nullptr, 10)\<close>: leading white space is skipped, an optional sign
  and the decimal digits are read up to the first other character, \<^verbatim>\<open>strtol\<close> keeps the
  value within \<^verbatim>\<open>long\<close>, and the conversion to \<^verbatim>\<open>int\<close> keeps its low 32 bits (the C
  standard leaves a value outside \<^verbatim>\<open>int\<close> undefined).
\<close>

definition isspace :: "char \<Rightarrow> bool" where
  "isspace c = (c = CHR '' '' \<or> (9 \<le> (of_char c :: nat) \<and> (of_char c :: nat) \<le> 13))"

fun atoi_digits :: "int \<Rightarrow> string \<Rightarrow> int" where
  "atoi_digits acc [] = acc"
| "atoi_digits acc (c # cs) =
     (if CHR ''0'' \<le> c \<and> c \<le> CHR ''9''
      then atoi_digits (acc * 10 + (of_char c - of_char CHR ''0'')) cs
      else acc)"

definition strtol :: "string \<Rightarrow> int" where
  "strtol s =
     (let t = dropWhile isspace s;
          v = (case t of
                 [] \<Rightarrow> 0
               | c # cs \<Rightarrow>
                   if c = CHR ''-'' then - atoi_digits 0 cs
                   else if c = CHR ''+'' then atoi_digits 0 cs
                   else atoi_digits 0 t)
      in max (- (2 ^ 63)) (min (2 ^ 63 - 1) v))"

definition atoi :: "string \<Rightarrow> int" where
  "atoi s = sint (word_of_int (strtol s) :: 32 word)"

text \<open>
  The opaque engine (\<^verbatim>\<open>index_\<close>, a knowhere index) is the functions the code calls on it;
  \<^verbatim>\<open>Build\<close> returns a status and may write to the local store. A dataset is its row
  count, its dimension and the bytes of its tensor; the dataset a search returns is its
  ids and its distances. \<^verbatim>\<open>GetVectorByIds\<close>, \<^verbatim>\<open>Search\<close> and \<^verbatim>\<open>RangeSearch\<close> return an
  \<^verbatim>\<open>expected\<close>, here an \<open>option\<close>.
\<close>

datatype Status = success | failure nat

record Dataset =
  GetRows :: i64
  GetDim :: i64
  GetTensor :: "u8 list"

record SearchOutput =
  GetIds :: "i64 list"
  GetDistance :: "f32 list"

record Engine =
  engine_Build :: "Config \<Rightarrow> LocalFS \<Rightarrow> Status \<times> LocalFS"
  IsAdditionalScalarSupported :: bool
  GetVectorByIds :: "Dataset \<Rightarrow> Dataset option"
  Search :: "Dataset \<Rightarrow> Config \<Rightarrow> BitsetType \<Rightarrow> SearchOutput option"
  RangeSearch :: "Dataset \<Rightarrow> Config \<Rightarrow> BitsetType \<Rightarrow> SearchOutput option"

text \<open>
  The file manager (\<^verbatim>\<open>storage::DiskFileManagerImpl\<close>) and the path helpers of storage/Util
  are not under src/ either; they are the values and functions the code asks them for.
  The staging calls return the local path they wrote and the store after writing.
\<close>

record FileManager =
  segment_id :: i64
  field_id :: i64
  GetLocalIndexObjectPrefix :: string
  CacheRawDataToDisk :: "string list \<Rightarrow> LocalFS \<Rightarrow> string \<times> LocalFS"
  CacheRawDataToDisk_space :: "LocalFS \<Rightarrow> string \<times> LocalFS"
  CacheOptFieldToDisk :: "(int \<times> string) list \<Rightarrow> LocalFS \<Rightarrow> string \<times> LocalFS"
  GetSegmentRawDataPathPrefix :: "i64 \<Rightarrow> string"
  GenFieldRawDataPathPrefix :: "i64 \<Rightarrow> i64 \<Rightarrow> string"

text \<open>The three instantiations of the class template and \<^verbatim>\<open>sizeof(T)\<close>.\<close>

datatype ElemT = T_float | T_float16 | T_bfloat16

fun sizeof_T :: "ElemT \<Rightarrow> u64" where
  "sizeof_T T_float = 4"
| "sizeof_T T_float16 = 2"
| "sizeof_T T_bfloat16 = 2"

text \<open>
  The index object: the element type of the instantiation, its index type and metric
  type, the beam width kept from the load (\<^verbatim>\<open>search_beamwidth_\<close>), its file manager and its
  engine. The functions its methods call that are not under src/ are carried with it:
  the list behind \<^verbatim>\<open>is_in_bin_list\<close>, the two helpers of a range search
  (common/RangeSearchHelper.h: \<^verbatim>\<open>CheckRangeSearchParam\<close> throws for a range filter that does
  not fit the metric, here \<open>Some\<close> of what it throws, and \<^verbatim>\<open>ReGenRangeSearchResult\<close> lays the
  hits out as \<open>nq\<close> rows of \<open>topk\<close>), and the C library's \<^verbatim>\<open>pow\<close> on doubles.
\<close>

record VectorDiskAnnIndex =
  elem_T :: ElemT
  GetIndexType :: string
  GetMetricType :: string
  search_beamwidth :: u32
  file_manager :: FileManager
  index :: Engine
  BIN_List :: "string list"
  CheckRangeSearchParam :: "f32 \<Rightarrow> f32 \<Rightarrow> string \<Rightarrow> ErrorCode option"
  ReGenRangeSearchResult :: "SearchOutput \<Rightarrow> i64 \<Rightarrow> i64 \<Rightarrow> string \<Rightarrow> SearchOutput"
  pow :: "f64 \<Rightarrow> f64 \<Rightarrow> f64"

subsection \<open>Build, BuildV2, BuildWithDataset\<close>

text \<open>
  A call ends by returning (\<open>Inr ()\<close>) or by throwing (\<open>Inl\<close>); either way the local store
  is left in some state, which is the second component of the result.

  All three builds set the thread number in the same way, and two of them stage the
  optional scalar fields in the same way; the two blocks are written once.
\<close>

definition set_threads_num :: "VectorDiskAnnIndex \<Rightarrow> Config \<Rightarrow> ErrorCode + Config" where
  "set_threads_num idx build_config =
     (if GetIndexType idx = INDEX_DISKANN then
        (case GetValueFromConfig_string build_config DISK_ANN_BUILD_THREAD_NUM of
           None \<Rightarrow> Inl AssertError
         | Some num_threads \<Rightarrow>
             Inr (build_config(DISK_ANN_THREADS_NUM \<mapsto> JInt (atoi num_threads))))
      else Inr build_config)"

definition cache_opt_fields ::
  "VectorDiskAnnIndex \<Rightarrow> Config \<Rightarrow> Config \<Rightarrow> LocalFS \<Rightarrow> Config \<times> LocalFS" where
  "cache_opt_fields idx config build_config fs =
     (case GetValueFromConfig_OptFieldT config VEC_OPT_FIELDS of
        Some opt_fields \<Rightarrow>
          if IsAdditionalScalarSupported (index idx) then
            (let (path, fs') = CacheOptFieldToDisk (file_manager idx) opt_fields fs
             in (build_config(VEC_OPT_FIELDS_PATH \<mapsto> JString path), fs'))
          else (build_config, fs)
      | None \<Rightarrow> (build_config, fs))"

definition BuildV2 ::
  "VectorDiskAnnIndex \<Rightarrow> Config \<Rightarrow> LocalFS \<Rightarrow> (ErrorCode + unit) \<times> LocalFS" where
  "BuildV2 idx config fs =
     (let build_config = config;
          (local_data_path, fs1) = CacheRawDataToDisk_space (file_manager idx) fs;
          build_config = build_config(DISK_ANN_RAW_DATA_PATH \<mapsto> JString local_data_path);
          local_index_path_prefix = GetLocalIndexObjectPrefix (file_manager idx);
          build_config = build_config(DISK_ANN_PREFIX_PATH \<mapsto> JString local_index_path_prefix)
      in case set_threads_num idx build_config of
        Inl e \<Rightarrow> (Inl e, fs1)
      | Inr build_config \<Rightarrow>
          let (build_config, fs2) = cache_opt_fields idx config build_config fs1;
              build_config = erase build_config ''insert_files'';
              build_config = erase build_config VEC_OPT_FIELDS;
              (stat, fs3) = engine_Build (index idx) build_config fs2;
              segment_id = segment_id (file_manager idx)
          in (Inr (), RemoveDir (GetSegmentRawDataPathPrefix (file_manager idx) segment_id) fs3))"

definition Build ::
  "VectorDiskAnnIndex \<Rightarrow> Config \<Rightarrow> LocalFS \<Rightarrow> (ErrorCode + unit) \<times> LocalFS" where
  "Build idx config fs =
     (let build_config = config;
          segment_id = segment_id (file_manager idx)
      in case GetValueFromConfig_strings config ''insert_files'' of
        None \<Rightarrow> (Inl AssertError, fs)
      | Some insert_files \<Rightarrow>
          let (local_data_path, fs1) = CacheRawDataToDisk (file_manager idx) insert_files fs;
              build_config = build_config(DISK_ANN_RAW_DATA_PATH \<mapsto> JString local_data_path);
              local_index_path_prefix = GetLocalIndexObjectPrefix (file_manager idx);
              build_config = build_config(DISK_ANN_PREFIX_PATH \<mapsto> JString local_index_path_prefix)
          in case set_threads_num idx build_config of
            Inl e \<Rightarrow> (Inl e, fs1)
          | Inr build_config \<Rightarrow>
              let (build_config, fs2) = cache_opt_fields idx config build_config fs1;
                  build_config = erase build_config ''insert_files'';
                  build_config = erase build_config VEC_OPT_FIELDS;
                  (stat, fs3) = engine_Build (index idx) build_config fs2
              in if stat \<noteq> success then (Inl IndexBuildError, fs3)
                 else (Inr (),
                       RemoveDir (GetSegmentRawDataPathPrefix (file_manager idx) segment_id) fs3))"

text \<open>
  The staging of \<^verbatim>\<open>BuildWithDataset\<close>, from the existence test to the third
  \<^verbatim>\<open>Write\<close>. \<^verbatim>\<open>num\<close> and \<^verbatim>\<open>dim\<close> are \<^verbatim>\<open>uint32_t\<close>, so the casts truncate and \<^verbatim>\<open>num * dim\<close>
  is a 32-bit product; it is widened only for the multiplication by \<^verbatim>\<open>sizeof(T)\<close>. The two
  header words are written as they lie in memory, least significant byte first on the
  little-endian hosts the program is built for. Reading \<^verbatim>\<open>data_size\<close> bytes from a shorter
  tensor is a read outside the buffer.
\<close>

definition le_bytes32 :: "u32 \<Rightarrow> u8 list" where
  "le_bytes32 w = [ucast w, ucast (drop_bit 8 w), ucast (drop_bit 16 w), ucast (drop_bit 24 w)]"

definition data_size_of :: "ElemT \<Rightarrow> Dataset \<Rightarrow> u64" where
  "data_size_of T dataset =
     (let num = (ucast (GetRows dataset) :: u32);
          dim = (ucast (GetDim dataset) :: u32)
      in (ucast (num * dim) :: u64) * sizeof_T T)"

definition stage_raw_data :: "ElemT \<Rightarrow> string \<Rightarrow> Dataset \<Rightarrow> LocalFS \<Rightarrow> ErrorCode + LocalFS" where
  "stage_raw_data T local_data_path dataset fs =
     (let fs = (if \<not> Exist fs local_data_path then CreateFile local_data_path fs else fs);
          offset = 0;
          num = (ucast (GetRows dataset) :: u32);
          fs = Write local_data_path offset (le_bytes32 num) 4 fs;
          offset = offset + 4;
          dim = (ucast (GetDim dataset) :: u32);
          fs = Write local_data_path offset (le_bytes32 dim) 4 fs;
          offset = offset + 4;
          data_size = unat (data_size_of T dataset);
          raw_data = GetTensor dataset
      in if length raw_data < data_size then Inl UndefinedBehaviour
         else Inr (Write local_data_path offset raw_data data_size fs))"

definition BuildWithDataset ::
  "VectorDiskAnnIndex \<Rightarrow> Dataset \<Rightarrow> Config \<Rightarrow> LocalFS \<Rightarrow> (ErrorCode + unit) \<times> LocalFS" where
  "BuildWithDataset idx dataset config fs =
     (let build_config = config;
          segment_id = segment_id (file_manager idx);
          field_id = field_id (file_manager idx);
          local_data_path =
            GenFieldRawDataPathPrefix (file_manager idx) segment_id field_id @ ''raw_data'';
          build_config = build_config(DISK_ANN_RAW_DATA_PATH \<mapsto> JString local_data_path);
          local_index_path_prefix = GetLocalIndexObjectPrefix (file_manager idx);
          build_config = build_config(DISK_ANN_PREFIX_PATH \<mapsto> JString local_index_path_prefix)
      in case set_threads_num idx build_config of
        Inl e \<Rightarrow> (Inl e, fs)
      | Inr build_config \<Rightarrow>
          (case stage_raw_data (elem_T idx) local_data_path dataset fs of
             Inl e \<Rightarrow> (Inl e, fs)
           | Inr fs1 \<Rightarrow>
               let (stat, fs2) = engine_Build (index idx) build_config fs1
               in if stat \<noteq> success then (Inl IndexBuildError, fs2)
                  else (Inr (),
                        RemoveDir (GetSegmentRawDataPathPrefix (file_manager idx) segment_id) fs2)))"

subsection \<open>GetVector\<close>

text \<open>
  \<^verbatim>\<open>is_in_bin_list\<close> (index/Utils) is not under src/: the list of binary index types is
  carried in the index object. \<^verbatim>\<open>data_size\<close> is an \<^verbatim>\<open>int64_t\<close>; \<^verbatim>\<open>dim / 8\<close> truncates
  towards zero. A negative \<^verbatim>\<open>data_size\<close> becomes a size above \<^verbatim>\<open>max_size()\<close> in
  \<^verbatim>\<open>raw_data.resize\<close>, which throws; \<^verbatim>\<open>memcpy\<close> from a tensor of fewer bytes reads outside
  the buffer.
\<close>

definition is_in_bin_list :: "VectorDiskAnnIndex \<Rightarrow> string \<Rightarrow> bool" where
  "is_in_bin_list idx index_type = (index_type \<in> set (BIN_List idx))"

definition GetVector :: "VectorDiskAnnIndex \<Rightarrow> Dataset \<Rightarrow> ErrorCode + u8 list" where
  "GetVector idx dataset =
     (case GetVectorByIds (index idx) dataset of
        None \<Rightarrow> Inl UnexpectedError
      | Some res \<Rightarrow>
          let index_type = GetIndexType idx;
              tensor = GetTensor res;
              row_num = GetRows res;
              dim = GetDim res;
              data_size =
                (if is_in_bin_list idx index_type
                 then (word_of_int (sint dim sdiv 8) :: i64) * row_num
                 else dim * row_num * 4)
          in if sint data_size < 0 then Inl LengthError
             else if length tensor < unat data_size then Inl UndefinedBehaviour
             else Inr (take (unat data_size) tensor))"

subsection \<open>Query\<close>

text \<open>
  IEEE 754 binary arithmetic, as the processors the program is built for carry it out on
  \<^verbatim>\<open>float\<close> and \<^verbatim>\<open>double\<close>. A bit pattern is a NaN, an infinity with its sign, or a finite
  number with its sign, \<open>mantissa * 2^exponent\<close>; the exponent field 0 holds the zeros and
  the subnormal numbers.
\<close>

datatype FpValue = NaN | Infinity bool | Finite bool int int

definition f32_value :: "f32 \<Rightarrow> FpValue" where
  "f32_value x =
     (let sign = (2 ^ 31 \<le> uint x);
          ex = uint x div 2 ^ 23 mod 256;
          frac = uint x mod 2 ^ 23
      in if ex = 255 then (if frac = 0 then Infinity sign else NaN)
         else if ex = 0 then Finite sign frac (- 149)
         else Finite sign (2 ^ 23 + frac) (ex - 150))"

definition f64_value :: "f64 \<Rightarrow> FpValue" where
  "f64_value x =
     (let sign = (2 ^ 63 \<le> uint x);
          ex = uint x div 2 ^ 52 mod 2048;
          frac = uint x mod 2 ^ 52
      in if ex = 2047 then (if frac = 0 then Infinity sign else NaN)
         else if ex = 0 then Finite sign frac (- 1074)
         else Finite sign (2 ^ 52 + frac) (ex - 1075))"

text \<open>
  An operation returns the exact result rounded to the nearest number of the format, to
  the one with an even mantissa when two are equally near, and to infinity beyond the
  largest. \<open>round_binary p qmin num den e\<close> is the pattern, without its sign, of the
  number nearest to \<open>num / den * 2^e\<close> in the format of \<open>p\<close> mantissa bits whose smallest
  exponent is \<open>qmin\<close>: with \<open>q\<close> the exponent of the result and \<open>mant\<close> the quotient
  rounded at \<open>2^q\<close>, the exponent field and the fraction field together are
  \<open>(q - qmin) * 2^(p - 1) + mant\<close>, also for a subnormal result and when rounding
  carries into the next exponent.
\<close>

function bit_length :: "int \<Rightarrow> int" where
  "bit_length n = (if n \<le> 0 then 0 else 1 + bit_length (n div 2))"
  by pat_completeness auto
termination
  by (relation "measure nat") auto

declare bit_length.simps [simp del]

definition floor_log2 :: "int \<Rightarrow> int \<Rightarrow> int" where
  "floor_log2 num den =
     (let l = bit_length num - bit_length den
      in if (if 0 \<le> l then den * 2 ^ nat l \<le> num else den \<le> num * 2 ^ nat (- l))
         then l else l - 1)"

definition round_nearest_even :: "int \<Rightarrow> int \<Rightarrow> int" where
  "round_nearest_even a b =
     (let q = a div b; r = a mod b
      in if 2 * r < b then q
         else if b < 2 * r then q + 1
         else if even q then q else q + 1)"

definition round_binary :: "nat \<Rightarrow> int \<Rightarrow> int \<Rightarrow> int \<Rightarrow> int \<Rightarrow> int" where
  "round_binary p qmin num den e =
     (if num = 0 then 0
      else
        let q = max (floor_log2 num den + e - (int p - 1)) qmin;
            s = e - q;
            mant = (if 0 \<le> s then round_nearest_even (num * 2 ^ nat s) den
                    else round_nearest_even num (den * 2 ^ nat (- s)))
        in (q - qmin) * 2 ^ (p - 1) + mant)"

definition f32_of_fraction :: "bool \<Rightarrow> int \<Rightarrow> int \<Rightarrow> int \<Rightarrow> f32" where
  "f32_of_fraction sign num den e =
     (if sign then 0x80000000 else 0) +
     word_of_int (min (round_binary 24 (- 149) num den e) 0x7F800000)"

definition f64_of_fraction :: "bool \<Rightarrow> int \<Rightarrow> int \<Rightarrow> int \<Rightarrow> f64" where
  "f64_of_fraction sign num den e =
     (if sign then 0x8000000000000000 else 0) +
     word_of_int (min (round_binary 53 (- 1074) num den e) 0x7FF0000000000000)"

text \<open>
  Which NaN an operation returns is left to the processor; the model returns the quiet
  NaN \<open>7FC00000\<close> for every one.
\<close>

definition f32_nan :: f32 where "f32_nan = 0x7FC00000"

definition f32_infinity :: "bool \<Rightarrow> f32" where
  "f32_infinity sign = (if sign then 0xFF800000 else 0x7F800000)"

definition f32_zero :: "bool \<Rightarrow> f32" where
  "f32_zero sign = (if sign then 0x80000000 else 0)"

text \<open>
  The product and the quotient of two \<^verbatim>\<open>float\<close>s: an infinity times zero, an infinity by
  an infinity and zero by zero are NaN; a division by zero is an infinity.
\<close>

definition f32_mul :: "f32 \<Rightarrow> f32 \<Rightarrow> f32" where
  "f32_mul x y =
     (case f32_value x of
        NaN \<Rightarrow> f32_nan
      | Infinity s \<Rightarrow>
          (case f32_value y of
             NaN \<Rightarrow> f32_nan
           | Infinity t \<Rightarrow> f32_infinity (s \<noteq> t)
           | Finite t n r \<Rightarrow> if n = 0 then f32_nan else f32_infinity (s \<noteq> t))
      | Finite s m q \<Rightarrow>
          (case f32_value y of
             NaN \<Rightarrow> f32_nan
           | Infinity t \<Rightarrow> if m = 0 then f32_nan else f32_infinity (s \<noteq> t)
           | Finite t n r \<Rightarrow> f32_of_fraction (s \<noteq> t) (m * n) 1 (q + r)))"

definition f32_div :: "f32 \<Rightarrow> f32 \<Rightarrow> f32" where
  "f32_div x y =
     (case f32_value x of
        NaN \<Rightarrow> f32_nan
      | Infinity s \<Rightarrow>
          (case f32_value y of
             NaN \<Rightarrow> f32_nan
           | Infinity t \<Rightarrow> f32_nan
           | Finite t n r \<Rightarrow> f32_infinity (s \<noteq> t))
      | Finite s m q \<Rightarrow>
          (case f32_value y of
             NaN \<Rightarrow> f32_nan
           | Infinity t \<Rightarrow> f32_zero (s \<noteq> t)
           | Finite t n r \<Rightarrow>
               if n = 0 then (if m = 0 then f32_nan else f32_infinity (s \<noteq> t))
               else f32_of_fraction (s \<noteq> t) m n (q - r)))"

text \<open>
  \<^verbatim>\<open>std::round\<close> on a \<^verbatim>\<open>float\<close>: the nearest whole number, a half going away from zero. A
  number with a non-negative exponent is whole already; the result keeps the sign, also
  when it is zero.
\<close>

definition f32_round :: "f32 \<Rightarrow> f32" where
  "f32_round x =
     (case f32_value x of
        NaN \<Rightarrow> f32_nan
      | Infinity s \<Rightarrow> x
      | Finite s m q \<Rightarrow>
          if 0 \<le> q then x
          else f32_of_fraction s ((2 * m + 2 ^ nat (- q)) div (2 ^ nat (- q) * 2)) 1 0)"

text \<open>
  The conversion of a \<^verbatim>\<open>double\<close> to \<^verbatim>\<open>float\<close>, which rounds to the nearest \<^verbatim>\<open>float\<close> and
  takes a \<^verbatim>\<open>double\<close> beyond the largest \<^verbatim>\<open>float\<close> to an infinity, and of an \<^verbatim>\<open>int64_t\<close> to
  \<^verbatim>\<open>double\<close>.
\<close>

definition f32_of_f64 :: "f64 \<Rightarrow> f32" where
  "f32_of_f64 x =
     (case f64_value x of
        NaN \<Rightarrow> f32_nan
      | Infinity s \<Rightarrow> f32_infinity s
      | Finite s m q \<Rightarrow> f32_of_fraction s m 1 q)"

definition f64_of_int64 :: "i64 \<Rightarrow> f64" where
  "f64_of_int64 k = f64_of_fraction (sint k < 0) \<bar>sint k\<bar> 1 0"

text \<open>
  The body of the rounding loop, \<^verbatim>\<open>std::round(distances[i] * multiplier) / multiplier\<close> on
  \<^verbatim>\<open>float\<close>s, and the loop, which rewrites \<^verbatim>\<open>distances[0 .. total_num - 1]\<close> in place.
\<close>

definition round_distance :: "f32 \<Rightarrow> f32 \<Rightarrow> f32" where
  "round_distance multiplier distance =
     f32_div (f32_round (f32_mul distance multiplier)) multiplier"

function rounding_loop :: "f32 \<Rightarrow> int \<Rightarrow> int \<Rightarrow> f32 list \<Rightarrow> f32 list" where
  "rounding_loop multiplier i total_num distances =
     (if i < total_num
      then rounding_loop multiplier (i + 1) total_num
             (distances[nat i := round_distance multiplier (distances ! nat i)])
      else distances)"
  by pat_completeness auto
termination
  by (relation "measure (\<lambda>(multiplier, i, total_num, distances). nat (total_num - i))") auto

declare rounding_loop.simps [simp del]

text \<open>
  Modelled from the spec: \<^verbatim>\<open>SearchInfo\<close> (common/QueryInfo.h) and \<^verbatim>\<open>SearchResult\<close>
  (common/QueryResult.h) are not under src/. From 4.8 and 6 they are the members that
  \<^verbatim>\<open>Query\<close> reads and writes; the result's \<^verbatim>\<open>seg_offsets_\<close> and \<^verbatim>\<open>distances_\<close> are
  \<open>result_seg_offsets\<close> and \<open>result_distances\<close> here.
\<close>

record SearchInfo =
  topk :: i64
  metric_type :: string
  round_decimal :: i64
  search_params :: Config

record SearchResult =
  result_seg_offsets :: "i64 list"
  result_distances :: "f32 list"
  total_nq :: i64
  unity_topK :: i64

text \<open>
  The lambda \<^verbatim>\<open>final\<close> of \<^verbatim>\<open>Query\<close>: a range search when the caller set a radius, a top-k
  search otherwise; a failed \<^verbatim>\<open>expected\<close> is thrown as \<open>UnexpectedError\<close>.
\<close>

definition Query_final ::
  "VectorDiskAnnIndex \<Rightarrow> Dataset \<Rightarrow> SearchInfo \<Rightarrow> Config \<Rightarrow> BitsetType \<Rightarrow> i64 \<Rightarrow> i64 \<Rightarrow>
     ErrorCode + SearchOutput" where
  "Query_final idx dataset search_info search_config bitset topk' num_queries =
     (case GetValueFromConfig_float (search_params search_info) RADIUS of
        Some radius \<Rightarrow>
          let search_config = search_config(RADIUS \<mapsto> JFloat radius)
          in (case
                (case GetValueFromConfig_float (search_params search_info) RANGE_FILTER of
                   Some range_filter \<Rightarrow>
                     let search_config = search_config(RANGE_FILTER \<mapsto> JFloat range_filter)
                     in (case CheckRangeSearchParam idx radius range_filter (GetMetricType idx) of
                           Some e \<Rightarrow> Inl e
                         | None \<Rightarrow> Inr search_config)
                 | None \<Rightarrow> Inr search_config)
              of
                Inl e \<Rightarrow> Inl e
              | Inr search_config \<Rightarrow>
                  (case RangeSearch (index idx) dataset search_config bitset of
                     None \<Rightarrow> Inl UnexpectedError
                   | Some res \<Rightarrow>
                       Inr (ReGenRangeSearchResult idx res topk' num_queries (GetMetricType idx))))
      | None \<Rightarrow>
          (case Search (index idx) dataset search_config bitset of
             None \<Rightarrow> Inl UnexpectedError
           | Some res \<Rightarrow> Inr res))"

text \<open>
  \<^verbatim>\<open>VectorDiskAnnIndex<T>::Query\<close>. \<open>Query_config\<close> is the search configuration it builds
  before the search. \<^verbatim>\<open>total_num\<close> is the product of the number of queries and
  \<^verbatim>\<open>topk\<close>, two \<^verbatim>\<open>int64_t\<close> whose product must not overflow. The multiplier is
  \<^verbatim>\<open>pow(10.0, round_decimal)\<close>, a \<^verbatim>\<open>double\<close>, converted to \<^verbatim>\<open>float\<close>; 10.0 is the \<^verbatim>\<open>double\<close>
  \<open>4024000000000000\<close>. The loop counter is an \<^verbatim>\<open>int\<close>, which overflows before it
  reaches a \<^verbatim>\<open>total_num\<close> of \<open>2^31\<close> or more, and the loop and the two \<^verbatim>\<open>copy_n\<close> read
  the engine's arrays at \<open>0 .. total_num - 1\<close>, outside them if they are shorter;
  \<^verbatim>\<open>resize\<close> throws for a \<^verbatim>\<open>total_num\<close> that is negative or too long.
\<close>

definition Query_config :: "VectorDiskAnnIndex \<Rightarrow> SearchInfo \<Rightarrow> Config" where
  "Query_config idx search_info =
     (let topk = topk search_info;
          search_config = search_params search_info;
          search_config = search_config(TOPK \<mapsto> JInt (sint topk));
          search_config = search_config(METRIC_TYPE \<mapsto> JString (GetMetricType idx));
          search_config =
            (if GetIndexType idx = INDEX_DISKANN then
               let search_config =
                     (if CheckKeyInConfig (search_params search_info) DISK_ANN_QUERY_LIST
                      then search_config(DISK_ANN_SEARCH_LIST_SIZE :=
                             search_params search_info DISK_ANN_QUERY_LIST)
                      else search_config);
                   search_config =
                     search_config(DISK_ANN_QUERY_BEAMWIDTH \<mapsto> JInt (sint (search_beamwidth idx)))
               in search_config(DISK_ANN_PQ_CODE_BUDGET \<mapsto> JFloat 0)
             else search_config);
          local_index_path_prefix = GetLocalIndexObjectPrefix (file_manager idx)
      in search_config(DISK_ANN_PREFIX_PATH \<mapsto> JString local_index_path_prefix))"

definition Query ::
  "VectorDiskAnnIndex \<Rightarrow> Dataset \<Rightarrow> SearchInfo \<Rightarrow> BitsetType \<Rightarrow> ErrorCode + SearchResult" where
  "Query idx dataset search_info bitset =
     (if GetMetricType idx \<noteq> metric_type search_info then Inl AssertError
      else
        let num_queries = GetRows dataset;
            topk = topk search_info;
            search_config = Query_config idx search_info
        in case Query_final idx dataset search_info search_config bitset topk num_queries of
          Inl e \<Rightarrow> Inl e
        | Inr final \<Rightarrow>
            let ids = GetIds final;
                distances = GetDistance final;
                round_decimal = round_decimal search_info;
                total_num = sint num_queries * sint topk
            in if total_num < - (2 ^ 63) \<or> 2 ^ 63 \<le> total_num then Inl UndefinedBehaviour
               else case
                 (if round_decimal \<noteq> - 1 then
                    let multiplier =
                          f32_of_f64 (pow idx 0x4024000000000000 (f64_of_int64 round_decimal))
                    in if 2 ^ 31 \<le> total_num \<or> int (length distances) < total_num
                       then Inl UndefinedBehaviour
                       else Inr (rounding_loop multiplier 0 total_num distances)
                  else Inr distances)
               of
                 Inl e \<Rightarrow> Inl e
               | Inr distances \<Rightarrow>
                   if vector_too_long 8 total_num then Inl LengthError
                   else if int (length ids) < total_num \<or> int (length distances) < total_num
                   then Inl UndefinedBehaviour
                   else Inr \<lparr>result_seg_offsets = take (nat total_num) ids,
                             result_distances = take (nat total_num) distances,
                             total_nq = num_queries,
                             unity_topK = topk\<rparr>)"






section \<open>Example states\<close>

text \<open>
  The segment of the spec's scenario E1 after its insert: primary field 100 (int64),
  vector field 101, three rows with ids 10, 11, 12 and timestamps 1, 2, 3, in chunks of
  two rows.
\<close>

definition row_E1 :: "nat \<Rightarrow> u8 list" where
  "row_E1 k = concat (map le_bytes32 ((replicate 4 0)[k := 0x3F800000]))"

definition seg_E1 :: SegmentGrowingImpl where
  "seg_E1 =
     \<lparr>schema = \<lparr>schema_fields = [100 \<mapsto> \<lparr>get_data_type = INT64, get_sizeof = 8\<rparr>,
                                  101 \<mapsto> \<lparr>get_data_type = VECTOR_FLOAT, get_sizeof = 16\<rparr>],
                 get_primary_field_id = Some 100\<rparr>,
      enable_interim_segment_index = False,
      insert_record =
        \<lparr>reserved = 3,
         timestamps = \<lparr>size_per_chunk = 2, chunks = [ [1, 2], [3] ]\<rparr>,
         row_ids = \<lparr>size_per_chunk = 2, chunks = [ [10, 11], [12] ]\<rparr>,
         fields_data =
           [100 \<mapsto> CV_int64 \<lparr>size_per_chunk = 2, chunks = [ [10, 11], [12] ]\<rparr>,
            101 \<mapsto> CV_FloatVector \<lparr>size_per_chunk = 2, chunks = [ [row_E1 0, row_E1 1], [row_E1 2] ]\<rparr>],
         pk2offset = [(IntPk 10, 0), (IntPk 11, 1), (IntPk 12, 2)]\<rparr>,
      deleted_record = \<lparr>del_pks = [], del_timestamps = []\<rparr>,
      indexing_record = \<lparr>build_threshold = 0, sync_watermark = Map.empty\<rparr>,
      chunk_mutex_held = False,
      mem_size = 0,
      CalcPksSize = (\<lambda>pks. 8 * int (length pks)),
      HasRawData = (\<lambda>field_id. True),
      GetDataFromIndex = (\<lambda>field_id seg_offsets count element_sizeof. [])\<rparr>"


text \<open>
  Scenario E5 in small: the same schema on an empty segment with the interim index
  enabled, two rows per chunk and an index threshold of two rows.
\<close>

definition seg_E5 :: SegmentGrowingImpl where
  "seg_E5 =
     \<lparr>schema = schema seg_E1,
      enable_interim_segment_index = True,
      insert_record =
        \<lparr>reserved = 0,
         timestamps = \<lparr>size_per_chunk = 2, chunks = []\<rparr>,
         row_ids = \<lparr>size_per_chunk = 2, chunks = []\<rparr>,
         fields_data =
           [100 \<mapsto> CV_int64 \<lparr>size_per_chunk = 2, chunks = []\<rparr>,
            101 \<mapsto> CV_FloatVector \<lparr>size_per_chunk = 2, chunks = []\<rparr>],
         pk2offset = []\<rparr>,
      deleted_record = \<lparr>del_pks = [], del_timestamps = []\<rparr>,
      indexing_record = \<lparr>build_threshold = 2, sync_watermark = [101 \<mapsto> 0]\<rparr>,
      chunk_mutex_held = False,
      mem_size = 0,
      CalcPksSize = (\<lambda>pks. 8 * int (length pks)),
      HasRawData = (\<lambda>field_id. True),
      GetDataFromIndex = (\<lambda>field_id seg_offsets count element_sizeof. [])\<rparr>"

text \<open>
  The same segment once the three vectors of E1 have been written to field 101 and fed to
  the index, which has taken them all; and after the release that \<^verbatim>\<open>Insert\<close> attempts
  next.
\<close>

definition seg_E5_written :: SegmentGrowingImpl where
  "seg_E5_written =
     seg_E5\<lparr>insert_record := (insert_record seg_E5)
               \<lparr>fields_data := (fields_data (insert_record seg_E5))
                  (101 \<mapsto> CV_FloatVector
                     \<lparr>size_per_chunk = 2, chunks = [ [row_E1 0, row_E1 1], [row_E1 2] ]\<rparr>)\<rparr>,
            indexing_record := \<lparr>build_threshold = 2, sync_watermark = [101 \<mapsto> 3]\<rparr>\<rparr>"

definition seg_E5_released :: SegmentGrowingImpl where
  "seg_E5_released =
     seg_E5_written\<lparr>insert_record := (insert_record seg_E5_written)
               \<lparr>fields_data := (fields_data (insert_record seg_E5_written))
                  (101 \<mapsto> CV_FloatVector \<lparr>size_per_chunk = 2, chunks = []\<rparr>)\<rparr>\<rparr>"

text \<open>Scenario E2: after E1, the deletion of id 11 at timestamp 5 has been logged.\<close>

definition seg_E2 :: SegmentGrowingImpl where
  "seg_E2 = seg_E1\<lparr>deleted_record := \<lparr>del_pks = [IntPk 11], del_timestamps = [5]\<rparr>,
                   mem_size := 16\<rparr>"

text \<open>
  Scenario E6: an index on field 101 of segment 7 whose raw data are two float vectors of
  dimension 4 holding 1.0 to 8.0. The file manager stages them in one file below the
  segment's raw-data directory. \<open>engine_ok\<close> builds and returns what it is asked for;
  \<open>engine_bin\<close> holds two binary vectors of 16 bits; \<open>engine_failing\<close> refuses to build.
  A search for the first vector finds it at offset 0 with distance 0.
\<close>

definition tensor_E6 :: "u8 list" where
  "tensor_E6 = concat (map le_bytes32
     [0x3F800000, 0x40000000, 0x40400000, 0x40800000,
      0x40A00000, 0x40C00000, 0x40E00000, 0x41000000])"

definition raw_data_path_E6 :: string where
  "raw_data_path_E6 = ''/local/raw_data/7/101/raw_data''"

definition fm_E6 :: FileManager where
  "fm_E6 =
     \<lparr>segment_id = 7,
      field_id = 101,
      GetLocalIndexObjectPrefix = ''/local/index/7/101'',
      CacheRawDataToDisk =
        (\<lambda>insert_files fs.
           (raw_data_path_E6, fs(raw_data_path_E6 \<mapsto> le_bytes32 2 @ le_bytes32 4 @ tensor_E6))),
      CacheRawDataToDisk_space =
        (\<lambda>fs. (raw_data_path_E6, fs(raw_data_path_E6 \<mapsto> le_bytes32 2 @ le_bytes32 4 @ tensor_E6))),
      CacheOptFieldToDisk = (\<lambda>opt_fields fs. (''/local/raw_data/7/101/opt_fields'', fs)),
      GetSegmentRawDataPathPrefix = (\<lambda>segment. ''/local/raw_data/7''),
      GenFieldRawDataPathPrefix = (\<lambda>segment field. ''/local/raw_data/7/101/'')\<rparr>"

definition engine_ok :: Engine where
  "engine_ok =
     \<lparr>engine_Build = (\<lambda>build_config fs. (success, fs)),
      IsAdditionalScalarSupported = False,
      GetVectorByIds = (\<lambda>ids. Some \<lparr>GetRows = 2, GetDim = 4, GetTensor = tensor_E6\<rparr>),
      Search = (\<lambda>dataset search_config bitset. Some \<lparr>GetIds = [0], GetDistance = [0]\<rparr>),
      RangeSearch = (\<lambda>dataset search_config bitset. Some \<lparr>GetIds = [0], GetDistance = [0]\<rparr>)\<rparr>"

definition engine_bin :: Engine where
  "engine_bin =
     \<lparr>engine_Build = (\<lambda>build_config fs. (success, fs)),
      IsAdditionalScalarSupported = False,
      GetVectorByIds = (\<lambda>ids. Some \<lparr>GetRows = 2, GetDim = 16, GetTensor = tensor_E6\<rparr>),
      Search = (\<lambda>dataset search_config bitset. None),
      RangeSearch = (\<lambda>dataset search_config bitset. None)\<rparr>"

definition engine_failing :: Engine where
  "engine_failing =
     \<lparr>engine_Build = (\<lambda>build_config fs. (failure 1, fs)),
      IsAdditionalScalarSupported = False,
      GetVectorByIds = (\<lambda>ids. None),
      Search = (\<lambda>dataset search_config bitset. None),
      RangeSearch = (\<lambda>dataset search_config bitset. None)\<rparr>"

text \<open>
  The powers of ten that the examples ask of \<^verbatim>\<open>pow\<close>, as the C library returns them:
  \<open>10^1\<close>, \<open>10^2\<close>, \<open>10^38\<close> and \<open>10^39\<close>; any other call gives a NaN here.
\<close>

definition pow_E6 :: "f64 \<Rightarrow> f64 \<Rightarrow> f64" where
  "pow_E6 x y =
     (if x = 0x4024000000000000 \<and> y = 0x3FF0000000000000 then 0x4024000000000000
      else if x = 0x4024000000000000 \<and> y = 0x4000000000000000 then 0x4059000000000000
      else if x = 0x4024000000000000 \<and> y = 0x4043000000000000 then 0x47D2CED32A16A1B1
      else if x = 0x4024000000000000 \<and> y = 0x4043800000000000 then 0x48078287F49C4A1D
      else 0x7FF8000000000000)"

definition idx_E6 :: VectorDiskAnnIndex where
  "idx_E6 =
     \<lparr>elem_T = T_float, GetIndexType = INDEX_DISKANN, GetMetricType = ''L2'',
      search_beamwidth = 8, file_manager = fm_E6, index = engine_ok,
      BIN_List = [''BIN_FLAT'', ''BIN_IVF_FLAT''],
      CheckRangeSearchParam = (\<lambda>radius range_filter metric. None),
      ReGenRangeSearchResult = (\<lambda>res topk nq metric. res),
      pow = pow_E6\<rparr>"

text \<open>
  A search for the first vector with \<open>topk = 3\<close> on an engine that finds two neighbours,
  at distances 1.2345 and 2.5, and fills the third place with the id \<open>-1\<close> and the largest
  \<^verbatim>\<open>float\<close>, \<open>(2^24 - 1) * 2^104\<close>.
\<close>

definition engine_search :: Engine where
  "engine_search =
     engine_ok\<lparr>Search := (\<lambda>dataset search_config bitset.
        Some \<lparr>GetIds = [0, 1, - 1], GetDistance = [0x3F9E0419, 0x40200000, 0x7F7FFFFF]\<rparr>)\<rparr>"

definition idx_search :: VectorDiskAnnIndex where
  "idx_search = idx_E6\<lparr>index := engine_search\<rparr>"

definition query_E6 :: Dataset where
  "query_E6 = \<lparr>GetRows = 1, GetDim = 4, GetTensor = take 16 tensor_E6\<rparr>"

definition info_E6 :: SearchInfo where
  "info_E6 = \<lparr>topk = 3, metric_type = ''L2'', round_decimal = - 1, search_params = Map.empty\<rparr>"

definition config_E6 :: Config where
  "config_E6 =
     [DISK_ANN_BUILD_THREAD_NUM \<mapsto> JString ''4'', ''insert_files'' \<mapsto> JStrings [''files/1''] ]"

text \<open>
  The same two vectors in half precision, 1.0 to 8.0 in two bytes each, as the engine
  of the float16 instantiation holds them, and that index.
\<close>

definition tensor_half :: "u8 list" where
  "tensor_half =
     [0x00, 0x3C, 0x00, 0x40, 0x00, 0x42, 0x00, 0x44,
      0x00, 0x45, 0x00, 0x46, 0x00, 0x47, 0x00, 0x48]"

definition engine_half :: Engine where
  "engine_half =
     \<lparr>engine_Build = (\<lambda>build_config fs. (success, fs)),
      IsAdditionalScalarSupported = False,
      GetVectorByIds = (\<lambda>ids. Some \<lparr>GetRows = 2, GetDim = 4, GetTensor = tensor_half\<rparr>),
      Search = (\<lambda>dataset search_config bitset. None),
      RangeSearch = (\<lambda>dataset search_config bitset. None)\<rparr>"

definition idx_half :: VectorDiskAnnIndex where
  "idx_half = idx_E6\<lparr>elem_T := T_float16, index := engine_half\<rparr>"

text \<open>A dataset of \<open>2^25\<close> rows of dimension 128, \<open>2^32\<close> elements in all, with any tensor.\<close>

definition dataset_2p32 :: "u8 list \<Rightarrow> Dataset" where
  "dataset_2p32 tensor = \<lparr>GetRows = 2 ^ 25, GetDim = 128, GetTensor = tensor\<rparr>"

section \<open>Word arithmetic without wrap-around\<close>

lemma sint_add_no_wrap:
  fixes x y :: i64
  assumes "- (2 ^ 63) \<le> sint x + sint y" "sint x + sint y < 2 ^ 63"
  shows "sint (x + y) = sint x + sint y"
  using assms by (simp add: sint_word_ariths signed_take_bit_int_eq_self)

lemma sint_mult_no_wrap:
  fixes x y :: i64
  assumes "- (2 ^ 63) \<le> sint x * sint y" "sint x * sint y < 2 ^ 63"
  shows "sint (x * y) = sint x * sint y"
  using assms by (simp add: sint_word_mult signed_take_bit_int_eq_self)

lemma sint_word_of_int_small:
  assumes "- (2 ^ 63) \<le> k" "k < 2 ^ 63"
  shows "sint (word_of_int k :: i64) = k"
  using assms by (simp add: sint_sbintrunc' signed_take_bit_int_eq_self)

lemma unat_of_nonneg_sint:
  fixes w :: i64
  assumes "0 \<le> sint w"
  shows "int (unat w) = sint w"
proof -
  have "sint w < 2 ^ 63"
    using sint_lt [of w] by simp
  then have "sint w < 2 ^ 64"
    by simp
  then have "take_bit 64 (sint w) = sint w"
    using assms by (simp add: take_bit_int_eq_self)
  then have "uint w = sint w"
    by (simp add: uint_sint)
  moreover have "uint w = int (unat w)"
    by (rule uint_nat)
  ultimately show ?thesis
    by linarith
qed

lemma int_less_pow2: "int a < 2 ^ n \<Longrightarrow> a < 2 ^ n"
  by simp

lemma unat_ucast_u32:
  fixes w :: i64
  assumes "0 \<le> sint w" "sint w < 2 ^ 32"
  shows "int (unat (ucast w :: u32)) = sint w"
proof -
  have "int (unat w) = sint w"
    using assms(1) by (rule unat_of_nonneg_sint)
  then have "int (unat w) < 2 ^ 32"
    using assms(2) by linarith
  then have small: "unat w < 2 ^ 32"
    by (rule int_less_pow2)
  have "unat (ucast w :: u32) = take_bit 32 (unat w)"
    by (simp add: unsigned_ucast_eq)
  also have "\<dots> = unat w"
    using small by (simp add: take_bit_nat_eq_self)
  finally show ?thesis
    using \<open>int (unat w) = sint w\<close> by linarith
qed

section \<open>PreInsert reserves disjoint, adjacent ranges\<close>

text \<open>
  Claim C5. \<^verbatim>\<open>PreInsert(n)\<close> returns the value the cursor \<open>reserved\<close> had before the
  call and leaves the cursor advanced by \<open>n\<close> (in 64-bit arithmetic). For two calls in a
  row, \<open>r1 = PreInsert(a)\<close> then \<open>r2 = PreInsert(b)\<close>, the second begins where the first
  ended; as long as \<open>r1 + a\<close> stays inside the signed 64-bit offset space the intervals
  \<open>[r1, r1 + a)\<close> and \<open>[r2, r2 + b)\<close> are disjoint and their union is one contiguous
  range, which for non-negative sizes is \<open>[r1, r1 + a + b)\<close>.
\<close>

theorem PreInsert_reserves:
  assumes first: "PreInsert a seg = (r1, seg1)"
    and second: "PreInsert b seg1 = (r2, seg2)"
  shows "r1 = reserved (insert_record seg) \<and>
         reserved (insert_record seg1) = reserved (insert_record seg) + a \<and>
         r2 = reserved (insert_record seg1) \<and>
         reserved (insert_record seg2) = reserved (insert_record seg1) + b \<and>
         (- (2 ^ 63) \<le> sint r1 + sint a \<and> sint r1 + sint a < 2 ^ 63 \<longrightarrow>
            offsets_of r1 a \<inter> offsets_of r2 b = {} \<and>
            (\<exists>lo hi. offsets_of r1 a \<union> offsets_of r2 b = {lo ..< hi}) \<and>
            (0 \<le> sint a \<and> 0 \<le> sint b \<longrightarrow>
               offsets_of r1 a \<union> offsets_of r2 b = {sint r1 ..< sint r1 + sint a + sint b}))"
proof -
  have r1: "r1 = reserved (insert_record seg)"
    and c1: "reserved (insert_record seg1) = reserved (insert_record seg) + a"
    using first by (auto simp: PreInsert_def Let_def)
  have r2: "r2 = reserved (insert_record seg1)"
    and c2: "reserved (insert_record seg2) = reserved (insert_record seg1) + b"
    using second by (auto simp: PreInsert_def Let_def)
  have intervals:
    "offsets_of r1 a \<inter> offsets_of r2 b = {} \<and>
     (\<exists>lo hi. offsets_of r1 a \<union> offsets_of r2 b = {lo ..< hi}) \<and>
     (0 \<le> sint a \<and> 0 \<le> sint b \<longrightarrow>
        offsets_of r1 a \<union> offsets_of r2 b = {sint r1 ..< sint r1 + sint a + sint b})"
    if nowrap: "- (2 ^ 63) \<le> sint r1 + sint a \<and> sint r1 + sint a < 2 ^ 63"
  proof -
    have s2: "sint r2 = sint r1 + sint a"
      using nowrap r1 r2 c1 by (simp add: sint_add_no_wrap)
    have disj: "offsets_of r1 a \<inter> offsets_of r2 b = {}"
      by (auto simp: offsets_of_def s2)
    have full: "offsets_of r1 a \<union> offsets_of r2 b = {sint r1 ..< sint r1 + sint a + sint b}"
      if "0 \<le> sint a" "0 \<le> sint b"
      using that by (auto simp: offsets_of_def s2)
    have contig: "\<exists>lo hi. offsets_of r1 a \<union> offsets_of r2 b = {lo ..< hi}"
    proof (cases "0 \<le> sint a \<and> 0 \<le> sint b")
      case True
      then show ?thesis using full by blast
    next
      case False
      then consider "sint a < 0" | "sint b < 0" by linarith
      then show ?thesis
      proof cases
        case 1
        then have "offsets_of r1 a \<union> offsets_of r2 b = {sint r2 ..< sint r2 + sint b}"
          by (auto simp: offsets_of_def)
        then show ?thesis by blast
      next
        case 2
        then have "offsets_of r1 a \<union> offsets_of r2 b = {sint r1 ..< sint r1 + sint a}"
          by (auto simp: offsets_of_def)
        then show ?thesis by blast
      qed
    qed
    show ?thesis using disj contig full by blast
  qed
  show ?thesis using r1 c1 r2 c2 intervals by blast
qed

theorem PreInsert_reserves_witness:
  "fst (PreInsert 2 seg_E1) = 3 \<and>
   fst (PreInsert 5 (snd (PreInsert 2 seg_E1))) = 5 \<and>
   reserved (insert_record (snd (PreInsert 5 (snd (PreInsert 2 seg_E1))))) = 10 \<and>
   offsets_of 3 2 \<inter> offsets_of 5 5 = {} \<and>
   offsets_of 3 2 \<union> offsets_of 5 5 = {3 ..< 10}"
proof -
  have f1: "fst (PreInsert 2 seg_E1) = 3"
    by (simp add: PreInsert_def seg_E1_def)
  have f2: "fst (PreInsert 5 (snd (PreInsert 2 seg_E1))) = 5"
    by (simp add: PreInsert_def seg_E1_def)
  have first: "PreInsert 2 seg_E1 = (3, snd (PreInsert 2 seg_E1))"
    using f1 by (metis prod.collapse)
  have second: "PreInsert 5 (snd (PreInsert 2 seg_E1)) = (5, snd (PreInsert 5 (snd (PreInsert 2 seg_E1))))"
    using f2 by (metis prod.collapse)
  have c: "reserved (insert_record (snd (PreInsert 5 (snd (PreInsert 2 seg_E1))))) = 10"
    by (simp add: PreInsert_def seg_E1_def)
  from PreInsert_reserves [OF first second]
  have "offsets_of 3 2 \<inter> offsets_of 5 5 = {} \<and> offsets_of 3 2 \<union> offsets_of 5 5 = {3 ..< 10}"
    by simp
  with f1 f2 c show ?thesis by blast
qed

section \<open>Delete drops unknown keys, sorts the rest and appends them\<close>

lemma short_vector:
  "0 \<le> n \<Longrightarrow> n < 2 ^ 31 \<Longrightarrow> \<not> vector_too_long 40 n \<and> \<not> vector_too_long 48 n"
  by (simp add: vector_too_long_def vector_max_size_def)

text \<open>
  Claim C1. On a segment whose schema declares its primary field, for a batch of
  \<open>n\<close> ids of the primary field's type with \<open>n\<close> timestamps (\<open>0 \<le> n < 2^31\<close>),
  \<^verbatim>\<open>Delete\<close> returns success; the entries appended to the deleted record are, as a
  multiset, exactly the \<open>(ts, pk)\<close> pairs of the batch whose key the primary-key index
  contains, and they are appended in sorted order after what the record held; the insert
  record is untouched. When no key of the batch is in the index the segment, and so the
  deleted record, is unchanged.
\<close>

theorem Delete_filters_sorts_appends:
  assumes pk: "get_primary_field_id (schema seg) = Some fid" "fid \<noteq> - 1"
    and meta: "schema_fields (schema seg) fid = Some field_meta"
    and size: "0 \<le> sint n" "sint n < 2 ^ 31" "nat (sint n) \<le> length timestamps_raw"
    and parse: "ParsePksFromIDs (nat (sint n)) (get_data_type field_meta) ids = Inr pks"
  shows "\<exists>seg' batch.
           Delete seg reserved_begin n ids timestamps_raw = Inr (Success, seg') \<and>
           del_timestamps (deleted_record seg') = del_timestamps (deleted_record seg) @ map fst batch \<and>
           del_pks (deleted_record seg') = del_pks (deleted_record seg) @ map snd batch \<and>
           sorted batch \<and>
           mset batch =
             filter_mset (\<lambda>record. contain (insert_record seg) (snd record))
               (mset (zip (take (nat (sint n)) timestamps_raw) pks)) \<and>
           insert_record seg' = insert_record seg \<and>
           ((\<forall>pk \<in> set pks. \<not> contain (insert_record seg) pk) \<longrightarrow> seg' = seg)"
proof -
  define entries where "entries = zip (take (nat (sint n)) timestamps_raw) pks"
  define kept where "kept = filter (\<lambda>record. contain (insert_record seg) (snd record)) entries"
  have run: "Delete seg reserved_begin n ids timestamps_raw =
      (if length kept = 0 then Inr (Success, seg)
       else Inr (Success,
              seg\<lparr>deleted_record := push (deleted_record seg) (map snd (sort kept)) (map fst (sort kept)),
                  mem_size := mem_size seg + int (length kept) * 8 +
                    CalcPksSize seg (map snd (sort kept))\<rparr>))"
    using pk meta size parse
    by (simp add: Delete_def schema_at_def Let_def kept_def entries_def short_vector)
  have kept_mset: "mset kept =
      filter_mset (\<lambda>record. contain (insert_record seg) (snd record))
        (mset (zip (take (nat (sint n)) timestamps_raw) pks))"
    by (simp add: kept_def entries_def)
  have none: "kept = []" if "\<forall>pk \<in> set pks. \<not> contain (insert_record seg) pk"
    unfolding kept_def entries_def filter_empty_conv using that
    by (auto dest: set_zip_rightD)
  show ?thesis
  proof (cases "kept = []")
    case True
    then have "Delete seg reserved_begin n ids timestamps_raw = Inr (Success, seg)"
      using run by simp
    moreover have "mset ([] :: (Timestamp \<times> PkType) list) =
        filter_mset (\<lambda>record. contain (insert_record seg) (snd record))
          (mset (zip (take (nat (sint n)) timestamps_raw) pks))"
      using kept_mset True by simp
    ultimately show ?thesis
      by (intro exI [of _ seg] exI [of _ "[]"]) simp
  next
    case False
    let ?seg' = "seg\<lparr>deleted_record := push (deleted_record seg) (map snd (sort kept)) (map fst (sort kept)),
                  mem_size := mem_size seg + int (length kept) * 8 +
                    CalcPksSize seg (map snd (sort kept))\<rparr>"
    have "Delete seg reserved_begin n ids timestamps_raw = Inr (Success, ?seg')"
      using run False by simp
    moreover have "mset (sort kept) =
        filter_mset (\<lambda>record. contain (insert_record seg) (snd record))
          (mset (zip (take (nat (sint n)) timestamps_raw) pks))"
      using kept_mset by simp
    moreover have "(\<forall>pk \<in> set pks. \<not> contain (insert_record seg) pk) \<longrightarrow> ?seg' = seg"
      using none False by blast
    moreover have "del_timestamps (deleted_record ?seg') =
        del_timestamps (deleted_record seg) @ map fst (sort kept)"
      and "del_pks (deleted_record ?seg') = del_pks (deleted_record seg) @ map snd (sort kept)"
      and "insert_record ?seg' = insert_record seg"
      by (simp_all add: push_def)
    moreover have "sorted (sort kept)"
      by simp
    ultimately show ?thesis
      by blast
  qed
qed

theorem Delete_filters_sorts_appends_witness:
  "(\<exists>seg'. Delete seg_E1 0 3 (IntId [12, 99, 11]) [7, 5, 5] = Inr (Success, seg') \<and>
           del_timestamps (deleted_record seg') = [5, 7] \<and>
           del_pks (deleted_record seg') = [IntPk 11, IntPk 12]) \<and>
   Delete seg_E1 0 1 (IntId [99]) [5] = Inr (Success, seg_E1)"
proof -
  let ?meta = "\<lparr>get_data_type = INT64, get_sizeof = 8\<rparr>"
  have pk: "get_primary_field_id (schema seg_E1) = Some 100" "(100 :: FieldId) \<noteq> - 1"
    and meta: "schema_fields (schema seg_E1) 100 = Some ?meta"
    by (simp_all add: seg_E1_def)
  have size3: "0 \<le> sint (3 :: i64)" "sint (3 :: i64) < 2 ^ 31"
      "nat (sint (3 :: i64)) \<le> length [7, 5, 5 :: Timestamp]"
    and parse3: "ParsePksFromIDs (nat (sint (3 :: i64))) (get_data_type ?meta) (IntId [12, 99, 11]) =
      Inr [IntPk 12, IntPk 99, IntPk 11]"
    by (simp_all add: ParsePksFromIDs_def)
  have size1: "0 \<le> sint (1 :: i64)" "sint (1 :: i64) < 2 ^ 31"
      "nat (sint (1 :: i64)) \<le> length [5 :: Timestamp]"
    and parse1: "ParsePksFromIDs (nat (sint (1 :: i64))) (get_data_type ?meta) (IntId [99]) = Inr [IntPk 99]"
    by (simp_all add: ParsePksFromIDs_def)
  from Delete_filters_sorts_appends [OF pk meta size3 parse3, of 0]
  obtain seg' batch where
    run: "Delete seg_E1 0 3 (IntId [12, 99, 11]) [7, 5, 5] = Inr (Success, seg')"
    and ts: "del_timestamps (deleted_record seg') = del_timestamps (deleted_record seg_E1) @ map fst batch"
    and pks: "del_pks (deleted_record seg') = del_pks (deleted_record seg_E1) @ map snd batch"
    and sorted: "sorted batch"
    and batch: "mset batch =
      filter_mset (\<lambda>record. contain (insert_record seg_E1) (snd record))
        (mset (zip (take (nat (sint (3 :: i64))) [7, 5, 5]) [IntPk 12, IntPk 99, IntPk 11]))"
    by blast
  have "mset batch = mset [(7, IntPk 12), (5, IntPk 11)]"
    unfolding batch by (simp add: contain_def seg_E1_def)
  then have "sort [(7, IntPk 12), (5, IntPk 11)] = batch"
    using sorted by (rule properties_for_sort)
  then have "batch = [(5, IntPk 11), (7, IntPk 12)]"
    by (simp add: less_eq_prod_def)
  then have first: "del_timestamps (deleted_record seg') = [5, 7] \<and>
      del_pks (deleted_record seg') = [IntPk 11, IntPk 12]"
    using ts pks by (simp add: seg_E1_def)
  from Delete_filters_sorts_appends [OF pk meta size1 parse1, of 0]
  have second: "Delete seg_E1 0 1 (IntId [99]) [5] = Inr (Success, seg_E1)"
    by (auto simp: contain_def seg_E1_def)
  from run first second show ?thesis by blast
qed

section \<open>mask\_with\_delete\<close>

lemma map2_or_idem: "map2 (\<or>) (map2 (\<or>) b d) d = map2 (\<or>) b d"
  by (induction b d rule: list_induct2') auto

lemma mask_with_delete_cases:
  "mask_with_delete seg bitset ins_barrier ts =
     (if get_barrier (deleted_record seg) ts = 0 then Inr bitset
      else case get_deleted_bitmap (get_barrier (deleted_record seg) ts) ins_barrier
                  (deleted_record seg) (insert_record seg) ts of
        None \<Rightarrow> Inr bitset
      | Some d \<Rightarrow> if length d = length bitset then Inr (map2 (\<or>) bitset d) else Inl AssertError)"
  by (simp add: mask_with_delete_def Let_def)

lemma mask_with_delete_again:
  assumes "mask_with_delete seg bitset ins_barrier ts = Inr bitset'"
  shows "mask_with_delete seg bitset' ins_barrier ts = Inr bitset'"
proof (cases "get_barrier (deleted_record seg) ts = 0")
  case True
  then show ?thesis by (simp add: mask_with_delete_cases)
next
  case False
  show ?thesis
  proof (cases "get_deleted_bitmap (get_barrier (deleted_record seg) ts) ins_barrier
                  (deleted_record seg) (insert_record seg) ts")
    case None
    then show ?thesis using False by (simp add: mask_with_delete_cases)
  next
    case (Some d)
    show ?thesis
    proof (cases "length d = length bitset")
      case True
      then have "bitset' = map2 (\<or>) bitset d"
        using assms False Some by (simp add: mask_with_delete_cases)
      then show ?thesis
        using False Some True by (simp add: mask_with_delete_cases map2_or_idem)
    next
      case wrong: False
      then show ?thesis
        using assms False Some by (simp add: mask_with_delete_cases)
    qed
  qed
qed

lemma Delete_E2: "Delete seg_E1 0 1 (IntId [11]) [5] = Inr (Success, seg_E2)"
  by (simp add: Delete_def schema_at_def ParsePksFromIDs_def contain_def push_def
      seg_E2_def seg_E1_def vector_too_long_def vector_max_size_def)

text \<open>
  Claim C4. For a fixed segment, \<open>ins_barrier\<close> and \<open>ts\<close>, applying
  \<^verbatim>\<open>mask_with_delete\<close> to its own result gives that result again; when
  \<open>barrier(ts) = 0\<close> the bitset is returned as it came. The third conjunct says the same
  of the caller's bitset including the calls that throw, which leave it untouched.
\<close>

theorem mask_with_delete_idempotent:
  "(mask_with_delete seg bitset ins_barrier ts = Inr bitset' \<longrightarrow>
      mask_with_delete seg bitset' ins_barrier ts = Inr bitset') \<and>
   (get_barrier (deleted_record seg) ts = 0 \<longrightarrow>
      mask_with_delete seg bitset ins_barrier ts = Inr bitset) \<and>
   bitset_after (bitset_after bitset (mask_with_delete seg bitset ins_barrier ts))
      (mask_with_delete seg (bitset_after bitset (mask_with_delete seg bitset ins_barrier ts))
         ins_barrier ts) =
     bitset_after bitset (mask_with_delete seg bitset ins_barrier ts)"
proof (intro conjI impI)
  assume "mask_with_delete seg bitset ins_barrier ts = Inr bitset'"
  then show "mask_with_delete seg bitset' ins_barrier ts = Inr bitset'"
    by (rule mask_with_delete_again)
next
  assume "get_barrier (deleted_record seg) ts = 0"
  then show "mask_with_delete seg bitset ins_barrier ts = Inr bitset"
    by (simp add: mask_with_delete_cases)
next
  show "bitset_after (bitset_after bitset (mask_with_delete seg bitset ins_barrier ts))
      (mask_with_delete seg (bitset_after bitset (mask_with_delete seg bitset ins_barrier ts))
         ins_barrier ts) =
     bitset_after bitset (mask_with_delete seg bitset ins_barrier ts)"
  proof (cases "mask_with_delete seg bitset ins_barrier ts")
    case (Inl e)
    then show ?thesis by (simp add: bitset_after_def)
  next
    case (Inr b')
    then show ?thesis
      using mask_with_delete_again [OF Inr] by (simp add: bitset_after_def)
  qed
qed

theorem mask_with_delete_idempotent_witness:
  "mask_with_delete seg_E2 [False, False, False] 3 10 = Inr [False, True, False] \<and>
   mask_with_delete seg_E2 [False, True, False] 3 10 = Inr [False, True, False] \<and>
   get_barrier (deleted_record seg_E2) 4 = 0 \<and>
   mask_with_delete seg_E2 [True, False, False] 3 4 = Inr [True, False, False]"
proof -
  have first: "mask_with_delete seg_E2 [False, False, False] 3 10 = Inr [False, True, False]"
    by (simp add: mask_with_delete_def get_barrier_def get_deleted_bitmap_def deleted_bit_def
        cv_elems_def seg_E2_def seg_E1_def upt_rec)
  have barrier: "get_barrier (deleted_record seg_E2) 4 = 0"
    by (simp add: get_barrier_def seg_E2_def)
  from mask_with_delete_idempotent [of seg_E2 "[False, False, False]" 3 10 "[False, True, False]"]
    first
  have second: "mask_with_delete seg_E2 [False, True, False] 3 10 = Inr [False, True, False]"
    by blast
  from mask_with_delete_idempotent [of seg_E2 "[True, False, False]" 3 4] barrier
  have third: "mask_with_delete seg_E2 [True, False, False] 3 4 = Inr [True, False, False]"
    by blast
  from first second barrier third show ?thesis by blast
qed

text \<open>
  Claim C9. When \<open>barrier(ts) > 0\<close> and a deletion bitmap is produced (for a
  non-negative \<open>ins_barrier\<close>), that bitmap has length \<open>ins_barrier\<close>; a caller's bitset
  of that length passes the size assertion and gets the bitmap OR-ed in, and a bitset of
  any other length fails the assertion, so no mask is composed.
\<close>

theorem mask_with_delete_size_assertion:
  assumes barrier: "0 < get_barrier (deleted_record seg) ts"
    and bitmap: "get_deleted_bitmap (get_barrier (deleted_record seg) ts) ins_barrier
                   (deleted_record seg) (insert_record seg) ts = Some delete_bitset"
    and ins: "0 \<le> sint ins_barrier"
  shows "int (length delete_bitset) = sint ins_barrier \<and>
         (int (length bitset) = sint ins_barrier \<longrightarrow>
            mask_with_delete seg bitset ins_barrier ts = Inr (map2 (\<or>) bitset delete_bitset)) \<and>
         (int (length bitset) \<noteq> sint ins_barrier \<longrightarrow>
            mask_with_delete seg bitset ins_barrier ts = Inl AssertError)"
proof -
  have len: "int (length delete_bitset) = sint ins_barrier"
    using bitmap ins by (auto simp: get_deleted_bitmap_def)
  show ?thesis
    using barrier bitmap len by (auto simp: mask_with_delete_def Let_def)
qed

theorem mask_with_delete_size_assertion_witness:
  "mask_with_delete seg_E2 [False, False, False] 3 10 = Inr [False, True, False] \<and>
   mask_with_delete seg_E2 [False, False] 3 10 = Inl AssertError"
proof -
  have barrier: "0 < get_barrier (deleted_record seg_E2) 10"
    by (simp add: get_barrier_def seg_E2_def)
  have bitmap: "get_deleted_bitmap (get_barrier (deleted_record seg_E2) 10) 3
      (deleted_record seg_E2) (insert_record seg_E2) 10 = Some [False, True, False]"
    by (simp add: get_barrier_def get_deleted_bitmap_def deleted_bit_def
        cv_elems_def seg_E2_def seg_E1_def upt_rec)
  have ins: "0 \<le> sint (3 :: i64)"
    by simp
  from mask_with_delete_size_assertion [OF barrier bitmap ins, of "[False, False, False]"]
  have ok: "mask_with_delete seg_E2 [False, False, False] 3 10 = Inr [False, True, False]"
    by simp
  from mask_with_delete_size_assertion [OF barrier bitmap ins, of "[False, False]"]
  have bad: "mask_with_delete seg_E2 [False, False] 3 10 = Inl AssertError"
    by simp
  from ok bad show ?thesis by blast
qed

section \<open>Chunks are released only for a synced field, below its watermark\<close>

lemma length_fill_chunks: "length cs \<le> length (fill_chunks n cs src)"
proof (cases "cs = []")
  case True
  then show ?thesis by simp
next
  case False
  then have "length (butlast cs) + 1 = length cs"
    by (simp add: Suc_leI)
  then show ?thesis
    using False by (simp add: fill_chunks_def)
qed

lemma concat_chunk_list: "0 < n \<Longrightarrow> concat (chunk_list n xs) = xs"
proof (induction n xs rule: chunk_list.induct)
  case (1 n xs)
  show ?case
  proof (cases "xs = []")
    case True
    then show ?thesis by (simp add: chunk_list.simps)
  next
    case False
    with 1 have "concat (chunk_list n (drop n xs)) = drop n xs"
      by simp
    with False 1(2) show ?thesis
      by (subst chunk_list.simps) simp
  qed
qed

lemma concat_fill_chunks:
  assumes "0 < n"
  shows "concat (fill_chunks n cs src) = concat cs @ src"
proof (cases "cs = []")
  case True
  with assms show ?thesis
    by (simp add: fill_chunks_def concat_chunk_list)
next
  case False
  then have "concat cs = concat (butlast cs) @ last cs"
    by (metis append_butlast_last_id concat.simps(2) concat_append append_Nil2 concat.simps(1))
  with False assms show ?thesis
    by (simp add: fill_chunks_def concat_chunk_list)
qed

lemma cv_write_rows:
  assumes "cv_write v offset num_rows src = Inr v'"
  shows "length (cv_elems v') = nat (sint offset + sint num_rows) \<and>
         num_chunk v \<le> num_chunk v' \<and> size_per_chunk v' = size_per_chunk v"
  using assms
  by (auto simp: cv_write_def cv_append_def cv_elems_def num_chunk_def concat_fill_chunks
      length_fill_chunks nat_add_distrib split: if_splits)

lemma map_sum_Inr: "map_sum id f x = Inr y \<Longrightarrow> \<exists>z. x = Inr z \<and> y = f z"
  by (cases x) auto

lemma set_data_raw_rows:
  assumes "set_data_raw base offset num_rows data = Inr base'"
  shows "vb_length base' = nat (sint offset + sint num_rows) \<and>
         vb_num_chunk base \<le> vb_num_chunk base' \<and>
         vb_size_per_chunk base' = vb_size_per_chunk base"
  using assms unfolding set_data_raw_def
  by (cases base; cases data) (auto dest!: map_sum_Inr dest: cv_write_rows)

lemma Insert_field_write_chunks:
  assumes "Insert_field_write reserved_offset num_rows fld data seg = Inr seg1"
  shows "column_chunks seg g \<le> column_chunks seg1 g"
  using assms
  by (auto simp: Insert_field_write_def column_chunks_def get_field_data_base_def
      dest: set_data_raw_rows split: if_splits sum.splits option.splits)

lemma try_remove_chunks_cases:
  assumes "try_remove_chunks fid seg = Inr seg'"
  shows "seg' = seg \<or>
         (SyncDataWithIndex (indexing_record seg) fid \<and> \<not> chunk_mutex_held seg \<and>
          (\<exists>v. fields_data (insert_record seg) fid = Some (CV_FloatVector v) \<and> 0 < num_chunk v \<and>
               seg' = seg\<lparr>insert_record := (insert_record seg)
                        \<lparr>fields_data := (fields_data (insert_record seg))
                           (fid \<mapsto> CV_FloatVector (cv_clear v))\<rparr>\<rparr>))"
  using assms
  by (auto simp: try_remove_chunks_def get_field_data_base_def
      split: if_splits sum.splits option.splits VectorBase.splits)

lemma AppendingIndex_other:
  "g \<noteq> fid \<Longrightarrow> sync_watermark (AppendingIndex off n g ir) fid = sync_watermark ir fid"
  by (simp add: AppendingIndex_def Let_def split: option.splits)

lemma AppendingIndex_same:
  "sync_watermark (AppendingIndex off n fid ir) fid =
     (case sync_watermark ir fid of
        None \<Rightarrow> None
      | Some w \<Rightarrow>
          Some (if 0 < build_threshold ir \<and> build_threshold ir \<le> nat (sint off + sint n)
                then max w (nat (sint off + sint n)) else w))"
  by (simp add: AppendingIndex_def Let_def split: option.splits)

lemma AppendingIndex_threshold:
  "build_threshold (AppendingIndex off n g ir) = build_threshold ir"
  by (simp add: AppendingIndex_def Let_def split: option.splits)

text \<open>
  A write keeps the column of a synced field below its watermark: a synced field is not
  written, and a field that the write makes synced has the end of the written range as
  its watermark. A release leaves the watermark alone.
\<close>

lemma write_keeps_column_below_watermark:
  assumes run: "Insert_field_write reserved_offset num_rows fld data seg = Inr seg1"
    and inv: "column_below_watermark fid seg"
  shows "column_below_watermark fid seg1"
proof (cases "fld = fid")
  case False
  from run have "column_rows seg1 fid = column_rows seg fid"
    using False
    by (auto simp: Insert_field_write_def column_rows_def get_field_data_base_def
        split: if_splits sum.splits option.splits)
  moreover from run have "sync_watermark (indexing_record seg1) fid = sync_watermark (indexing_record seg) fid"
    "build_threshold (indexing_record seg1) = build_threshold (indexing_record seg)"
    using False
    by (auto simp: Insert_field_write_def get_field_data_base_def AppendingIndex_other
        AppendingIndex_threshold split: if_splits sum.splits option.splits)
  ultimately show ?thesis
    using inv
    by (auto simp: column_below_watermark_def SyncDataWithIndex_def watermark_of_def
        split: option.splits)
next
  case True
  show ?thesis
  proof (cases "SyncDataWithIndex (indexing_record seg) fid")
    case synced: True
    from run synced True have rows: "column_rows seg1 fid = column_rows seg fid"
      by (auto simp: Insert_field_write_def column_rows_def split: if_splits)
    from run synced True have "indexing_record seg1 = indexing_record seg \<or>
        indexing_record seg1 = AppendingIndex reserved_offset num_rows fid (indexing_record seg)"
      by (auto simp: Insert_field_write_def split: if_splits)
    then have "watermark_of seg fid \<le> watermark_of seg1 fid"
      by (auto simp: watermark_of_def AppendingIndex_same split: option.splits)
    with rows inv synced show ?thesis
      by (simp add: column_below_watermark_def)
  next
    case unsynced: False
    from run unsynced True obtain base base' where
      written: "set_data_raw base reserved_offset num_rows data = Inr base'"
      and col: "fields_data (insert_record seg1) fid = Some base'"
      and ir: "indexing_record seg1 = indexing_record seg \<or>
        indexing_record seg1 = AppendingIndex reserved_offset num_rows fid (indexing_record seg)"
      by (auto simp: Insert_field_write_def get_field_data_base_def
          split: if_splits sum.splits option.splits)
    from set_data_raw_rows [OF written] col
    have rows: "column_rows seg1 fid = nat (sint reserved_offset + sint num_rows)"
      by (simp add: column_rows_def)
    from ir show ?thesis
    proof
      assume "indexing_record seg1 = indexing_record seg"
      with unsynced show ?thesis
        by (simp add: column_below_watermark_def)
    next
      assume "indexing_record seg1 = AppendingIndex reserved_offset num_rows fid (indexing_record seg)"
      with unsynced rows show ?thesis
        by (auto simp: column_below_watermark_def SyncDataWithIndex_def watermark_of_def
            AppendingIndex_same AppendingIndex_threshold split: option.splits if_splits)
    qed
  qed
qed

lemma remove_keeps_column_below_watermark:
  assumes run: "try_remove_chunks fld seg = Inr seg'"
    and inv: "column_below_watermark fid seg"
  shows "column_below_watermark fid seg'"
  using try_remove_chunks_cases [OF run] inv
  by (auto simp: column_below_watermark_def column_rows_def watermark_of_def cv_clear_def
      cv_elems_def split: if_splits)

text \<open>So the rows of a synced field's column lie below its watermark in every reachable state.\<close>

lemma reachable_column_below_watermark:
  "reachable fid seg \<Longrightarrow> column_below_watermark fid seg"
proof (induction rule: reachable.induct)
  case (new_segment seg)
  then show ?case
    by (simp add: column_below_watermark_def)
next
  case (after_step seg seg')
  from after_step.hyps(2) after_step.IH show ?case
    by cases (auto intro: write_keeps_column_below_watermark remove_keeps_column_below_watermark)
qed

text \<open>
  Claim C6. In every state reached from a new segment, a step releases a chunk of a
  field's column only if the field is index-synced at that moment, and every chunk it
  releases lies fully below the field's sync watermark; a column that ends up with fewer
  chunks belonged to a synced field whose rows were all below the watermark; and
  \<^verbatim>\<open>try_remove_chunks\<close> on a field that is not index-synced returns the segment, and so the
  field's column, unchanged.
\<close>

theorem chunks_released_only_below_watermark:
  assumes reach: "reachable fid seg" and step: "segment_step seg seg'"
  shows "released_only_below_watermark fid seg seg' \<and>
         (column_chunks seg' fid < column_chunks seg fid \<longrightarrow>
            SyncDataWithIndex (indexing_record seg) fid \<and>
            column_rows seg fid \<le> watermark_of seg fid) \<and>
         (\<not> SyncDataWithIndex (indexing_record seg) fid \<longrightarrow>
            try_remove_chunks fid seg = Inr seg)"
proof -
  have inv: "column_below_watermark fid seg"
    using reach by (rule reachable_column_below_watermark)
  have kept_or_synced: "column_chunks seg fid \<le> column_chunks seg' fid \<or>
      SyncDataWithIndex (indexing_record seg) fid"
    using step
  proof cases
    case (write_step reserved_offset num_rows fld data)
    then show ?thesis
      using Insert_field_write_chunks by blast
  next
    case (remove_step fld)
    from try_remove_chunks_cases [OF remove_step] show ?thesis
      by (cases "fld = fid") (auto simp: column_chunks_def)
  qed
  have below: "column_rows seg fid \<le> watermark_of seg fid"
    if "SyncDataWithIndex (indexing_record seg) fid"
    using inv that by (simp add: column_below_watermark_def)
  have first: "released_only_below_watermark fid seg seg'"
    unfolding released_only_below_watermark_def list_all_iff
  proof
    fix c
    assume "c \<in> set [0 ..< column_chunks seg fid]"
    then have c: "c < column_chunks seg fid"
      by simp
    from kept_or_synced show "c < column_chunks seg' fid \<or>
        (SyncDataWithIndex (indexing_record seg) fid \<and>
         min ((c + 1) * column_chunk_rows seg fid) (column_rows seg fid) \<le> watermark_of seg fid)"
    proof
      assume "column_chunks seg fid \<le> column_chunks seg' fid"
      with c show ?thesis by simp
    next
      assume synced: "SyncDataWithIndex (indexing_record seg) fid"
      from below [OF synced] have
        "min ((c + 1) * column_chunk_rows seg fid) (column_rows seg fid) \<le> watermark_of seg fid"
        by simp
      with synced show ?thesis by simp
    qed
  qed
  have second: "SyncDataWithIndex (indexing_record seg) fid \<and>
      column_rows seg fid \<le> watermark_of seg fid"
    if "column_chunks seg' fid < column_chunks seg fid"
    using kept_or_synced that below by auto
  have third: "try_remove_chunks fid seg = Inr seg"
    if "\<not> SyncDataWithIndex (indexing_record seg) fid"
    using that by (simp add: try_remove_chunks_def)
  from first second third show ?thesis
    by blast
qed

text \<open>
  What \<^verbatim>\<open>Insert\<close> does for a field is a write followed by a release. Scenario E5 in small:
  three rows written to the new segment and fed to the index make field 101 synced with
  its watermark at 3, and the release takes both chunks.
\<close>

lemma Insert_field_steps:
  assumes "Insert_field reserved_offset num_rows fld data seg = Inr seg'"
  shows "\<exists>seg1. segment_step seg seg1 \<and> segment_step seg1 seg'"
  using assms
  by (auto simp: Insert_field_def split: sum.splits intro: write_step remove_step)

lemma E5_written:
  "Insert_field_write 0 3 101 (float_vector [row_E1 0, row_E1 1, row_E1 2]) seg_E5 = Inr seg_E5_written"
  by (simp add: Insert_field_write_def seg_E5_def seg_E5_written_def SyncDataWithIndex_def
      get_field_data_base_def set_data_raw_def cv_write_def cv_append_def cv_elems_def
      fill_chunks_def chunk_list.simps AppendingIndex_def)

lemma E5_released: "try_remove_chunks 101 seg_E5_written = Inr seg_E5_released"
  by (simp add: try_remove_chunks_def seg_E5_released_def seg_E5_written_def seg_E5_def
      SyncDataWithIndex_def get_field_data_base_def num_chunk_def cv_clear_def)

theorem chunks_released_only_below_watermark_witness:
  "reachable 101 seg_E5_written \<and>
   segment_step seg_E5_written seg_E5_released \<and>
   released_only_below_watermark 101 seg_E5_written seg_E5_released \<and>
   column_chunks seg_E5_written 101 = 2 \<and>
   column_rows seg_E5_written 101 = 3 \<and>
   watermark_of seg_E5_written 101 = 3 \<and>
   column_chunks seg_E5_released 101 = 0 \<and>
   reachable 101 seg_E5 \<and>
   segment_step seg_E5 seg_E5_written \<and>
   \<not> SyncDataWithIndex (indexing_record seg_E5) 101 \<and>
   try_remove_chunks 101 seg_E5 = Inr seg_E5"
proof -
  have new: "reachable 101 seg_E5"
    by (rule new_segment) (simp_all add: column_rows_def watermark_of_def seg_E5_def cv_elems_def)
  have written: "segment_step seg_E5 seg_E5_written"
    using E5_written by (rule write_step)
  have reach: "reachable 101 seg_E5_written"
    using new written by (rule after_step)
  have step: "segment_step seg_E5_written seg_E5_released"
    using E5_released by (rule remove_step)
  have before: "column_chunks seg_E5_written 101 = 2" "column_rows seg_E5_written 101 = 3"
    "watermark_of seg_E5_written 101 = 3"
    by (simp_all add: column_chunks_def column_rows_def watermark_of_def
        seg_E5_written_def num_chunk_def cv_elems_def)
  have after: "column_chunks seg_E5_released 101 = 0"
    by (simp add: column_chunks_def seg_E5_released_def num_chunk_def)
  have unsynced: "\<not> SyncDataWithIndex (indexing_record seg_E5) 101"
    by (simp add: SyncDataWithIndex_def seg_E5_def)
  from chunks_released_only_below_watermark [OF reach step]
  have released: "released_only_below_watermark 101 seg_E5_written seg_E5_released"
    by blast
  from chunks_released_only_below_watermark [OF new written] unsynced
  have kept: "try_remove_chunks 101 seg_E5 = Inr seg_E5"
    by blast
  from new written reach step before after unsynced released kept show ?thesis
    by blast
qed

section \<open>bulk\_subscript and the offset that stands for no row\<close>

lemma cv_get_invalid: "cv_get vec INVALID_SEG_OFFSET = Inl UndefinedBehaviour"
  by (simp add: cv_get_def INVALID_SEG_OFFSET_def)

lemma subscript_loop_invalid:
  "INVALID_SEG_OFFSET \<in> set offsets \<Longrightarrow> \<exists>e. subscript_loop conv vec offsets i out = Inl e"
proof (induction offsets arbitrary: i out)
  case Nil
  then show ?case by simp
next
  case (Cons offset rest)
  show ?case
  proof (cases "offset = INVALID_SEG_OFFSET")
    case True
    then show ?thesis by (simp add: cv_get_invalid)
  next
    case False
    then have "INVALID_SEG_OFFSET \<in> set rest"
      using Cons.prems by auto
    then show ?thesis
      using Cons.IH by (auto split: sum.splits)
  qed
qed

lemma bulk_subscript_impl_invalid:
  assumes "INVALID_SEG_OFFSET \<in> set (take (nat (sint count')) seg_offsets)"
  shows "\<exists>e. bulk_subscript_impl conv vec_ptr seg_offsets count' out = Inl e"
  using subscript_loop_invalid [OF assms]
  by (auto simp: bulk_subscript_impl_def split: option.splits)

lemma bulk_subscript_ptr_impl_invalid:
  assumes "INVALID_SEG_OFFSET \<in> set (take (nat (sint count')) seg_offsets)"
  shows "\<exists>e. bulk_subscript_ptr_impl conv vec_ptr seg_offsets count' out = Inl e"
  using subscript_loop_invalid [OF assms]
  by (auto simp: bulk_subscript_ptr_impl_def split: option.splits)

lemma copy_from_chunk_keeps:
  "copy_from_chunk n vec offsets i out = Inr out' \<Longrightarrow>
     length out' = length out \<and> (\<forall>j < i. out' ! j = out ! j)"
proof (induction offsets arbitrary: i out)
  case Nil
  then show ?case by simp
next
  case (Cons offset rest)
  then show ?case
    by (fastforce split: if_splits sum.splits)
qed

lemma copy_from_chunk_zero_fills:
  "copy_from_chunk n vec offsets i out = Inr out' \<Longrightarrow> k < length offsets \<Longrightarrow>
     offsets ! k = INVALID_SEG_OFFSET \<Longrightarrow> out' ! (i + k) = replicate n 0"
proof (induction offsets arbitrary: i out k)
  case Nil
  then show ?case by simp
next
  case (Cons offset rest)
  show ?case
  proof (cases k)
    case 0
    then have inv: "offset = INVALID_SEG_OFFSET"
      using Cons.prems by simp
    then have run: "copy_from_chunk n vec rest (Suc i) (out[i := replicate n 0]) = Inr out'"
      and i: "i < length out"
      using Cons.prems(1) by (auto split: if_splits)
    from copy_from_chunk_keeps [OF run] i have "out' ! i = replicate n 0"
      by simp
    then show ?thesis using 0 by simp
  next
    case (Suc k')
    obtain out1 where run: "copy_from_chunk n vec rest (Suc i) out1 = Inr out'"
      using Cons.prems(1) by (auto split: if_splits sum.splits)
    have "out' ! (Suc i + k') = replicate n 0"
      using Cons.IH [OF run] Cons.prems Suc by simp
    then show ?thesis using Suc by simp
  qed
qed


lemma array_loop_keeps:
  "array_loop vec offsets i dst = Inr dst' \<Longrightarrow>
     length dst' = length dst \<and> (\<forall>j < i. dst' ! j = dst ! j)"
proof (induction offsets arbitrary: i dst)
  case Nil
  then show ?case by simp
next
  case (Cons offset rest)
  then show ?case
    by (fastforce split: if_splits sum.splits)
qed

lemma array_loop_skips_invalid:
  "array_loop vec offsets i dst = Inr dst' \<Longrightarrow> k < length offsets \<Longrightarrow>
     offsets ! k = INVALID_SEG_OFFSET \<Longrightarrow> i + k < length dst \<Longrightarrow> dst' ! (i + k) = dst ! (i + k)"
proof (induction offsets arbitrary: i dst k)
  case Nil
  then show ?case by simp
next
  case (Cons offset rest)
  show ?case
  proof (cases k)
    case 0
    then have inv: "offset = INVALID_SEG_OFFSET"
      using Cons.prems by simp
    then have run: "array_loop vec rest (Suc i) dst = Inr dst'"
      using Cons.prems(1) by simp
    from array_loop_keeps [OF run] show ?thesis
      using 0 by simp
  next
    case (Suc k')
    obtain dst1 where run: "array_loop vec rest (Suc i) dst1 = Inr dst'"
      and same: "dst1 ! (Suc i + k') = dst ! (Suc i + k')" and len: "length dst1 = length dst"
      using Cons.prems(1) by (auto split: if_splits sum.splits)
    have "dst' ! (Suc i + k') = dst1 ! (Suc i + k')"
      using Cons.IH [OF run] Cons.prems Suc len by simp
    then show ?thesis using Suc same by simp
  qed
qed

text \<open>
  Claim C2 fails for the scalar template: it subscripts the column with the offset it is
  given, \<^verbatim>\<open>INVALID_SEG_OFFSET\<close> included, which is a read outside the column and not a
  zero-filled slot. Shown on an int64 field and on the row-id system column; the vector
  field of the same segment gets its slot zero-filled.
\<close>

theorem bulk_subscript_scalar_reads_invalid_offset:
  "bulk_subscript seg_E1 100 [INVALID_SEG_OFFSET] 1 = Inl UndefinedBehaviour \<and>
   bulk_subscript_system seg_E1 RowId [INVALID_SEG_OFFSET] 1 [0] = Inl UndefinedBehaviour \<and>
   bulk_subscript seg_E1 101 [INVALID_SEG_OFFSET] 1 = Inr (float_vector [replicate 16 0])"
proof (intro conjI)
  show "bulk_subscript seg_E1 100 [INVALID_SEG_OFFSET] 1 = Inl UndefinedBehaviour"
    by (simp add: bulk_subscript_def seg_E1_def get_field_data_base_def schema_at_def
        is_vector_def bulk_subscript_impl_def cv_get_invalid)
  show "bulk_subscript_system seg_E1 RowId [INVALID_SEG_OFFSET] 1 [0] = Inl UndefinedBehaviour"
    by (simp add: bulk_subscript_system_def bulk_subscript_impl_def cv_get_invalid)
  show "bulk_subscript seg_E1 101 [INVALID_SEG_OFFSET] 1 = Inr (float_vector [replicate 16 0])"
    by (simp add: bulk_subscript_def seg_E1_def get_field_data_base_def schema_at_def
        is_vector_def bulk_subscript_impl_vector_def SyncDataWithIndex_def)
qed

section \<open>The builds of the on-disk index\<close>

text \<open>
  \<^verbatim>\<open>std::atoi\<close> on a thread number, after white space, up to the first character that is
  no digit, and on numbers beyond \<^verbatim>\<open>int\<close> and beyond \<^verbatim>\<open>long\<close>.
\<close>

lemma atoi_examples:
  "atoi ''4'' = 4"
  "atoi '' 12'' = 12"
  "atoi ''-7x'' = - 7"
  "atoi ''abc'' = 0"
  "atoi ''99999999999'' = 1215752191"
  "atoi ''99999999999999999999'' = - 1"
  by code_simp+

lemmas config_keys =
  DISK_ANN_RAW_DATA_PATH_def DISK_ANN_PREFIX_PATH_def DISK_ANN_BUILD_THREAD_NUM_def
  DISK_ANN_THREADS_NUM_def VEC_OPT_FIELDS_def VEC_OPT_FIELDS_PATH_def INDEX_DISKANN_def

lemmas build_E6 =
  set_threads_num_def cache_opt_fields_def GetValueFromConfig_string_def
  GetValueFromConfig_strings_def GetValueFromConfig_OptFieldT_def erase_def config_keys
  idx_E6_def fm_E6_def config_E6_def engine_failing_def engine_ok_def Let_def

lemma BuildV2_outcomes:
  "fst (BuildV2 idx config fs) = Inr () \<or> fst (BuildV2 idx config fs) = Inl AssertError"
  by (auto simp: BuildV2_def set_threads_num_def Let_def split: prod.splits sum.splits option.splits if_splits)

lemma inside_E6: "inside ''/local/raw_data/7'' raw_data_path_E6"
  by (simp add: inside_def raw_data_path_E6_def)

lemma Build_surfaces_failure:
  assumes "\<And>build_config store. fst (engine_Build (index idx) build_config store) \<noteq> success"
  shows "fst (Build idx config fs) \<noteq> Inr ()"
  using assms
  by (auto simp: Build_def Let_def split: prod.splits sum.splits option.splits)
    (metis fst_conv)

lemma BuildWithDataset_surfaces_failure:
  assumes "\<And>build_config store. fst (engine_Build (index idx) build_config store) \<noteq> success"
  shows "fst (BuildWithDataset idx dataset config fs) \<noteq> Inr ()"
  using assms
  by (auto simp: BuildWithDataset_def Let_def split: prod.splits sum.splits option.splits)
    (metis fst_conv)

text \<open>
  Claim C3 fails for \<^verbatim>\<open>BuildV2\<close>, which drops the status the engine returns: whatever the
  engine says, \<^verbatim>\<open>BuildV2\<close> either returns normally or fails the thread-number assertion,
  never with \<open>IndexBuildError\<close>. With an engine that refuses to build, \<^verbatim>\<open>BuildV2\<close> returns
  normally and the staged raw-data file is gone, where \<^verbatim>\<open>Build\<close> on the same input throws
  \<open>IndexBuildError\<close> and leaves the staged file in place.
\<close>

theorem BuildV2_ignores_build_status:
  "(fst (BuildV2 idx config fs) = Inr () \<or> fst (BuildV2 idx config fs) = Inl AssertError) \<and>
   fst (BuildV2 (idx_E6\<lparr>index := engine_failing\<rparr>) config_E6 Map.empty) = Inr () \<and>
   snd (BuildV2 (idx_E6\<lparr>index := engine_failing\<rparr>) config_E6 Map.empty) raw_data_path_E6 = None \<and>
   fst (Build (idx_E6\<lparr>index := engine_failing\<rparr>) config_E6 Map.empty) = Inl IndexBuildError \<and>
   snd (Build (idx_E6\<lparr>index := engine_failing\<rparr>) config_E6 Map.empty) raw_data_path_E6 =
     Some (le_bytes32 2 @ le_bytes32 4 @ tensor_E6)"
proof (intro conjI)
  show "fst (BuildV2 idx config fs) = Inr () \<or> fst (BuildV2 idx config fs) = Inl AssertError"
    by (rule BuildV2_outcomes)
  show "fst (BuildV2 (idx_E6\<lparr>index := engine_failing\<rparr>) config_E6 Map.empty) = Inr ()"
    by (simp add: BuildV2_def build_E6)
  show "snd (BuildV2 (idx_E6\<lparr>index := engine_failing\<rparr>) config_E6 Map.empty) raw_data_path_E6 = None"
    by (simp add: BuildV2_def build_E6 RemoveDir_def inside_E6)
  show "fst (Build (idx_E6\<lparr>index := engine_failing\<rparr>) config_E6 Map.empty) = Inl IndexBuildError"
    by (simp add: Build_def build_E6)
  show "snd (Build (idx_E6\<lparr>index := engine_failing\<rparr>) config_E6 Map.empty) raw_data_path_E6 =
     Some (le_bytes32 2 @ le_bytes32 4 @ tensor_E6)"
    by (simp add: Build_def build_E6)
qed

section \<open>The staged raw-data file\<close>

lemma header_2p32:
  "le_bytes32 (ucast (GetRows (dataset_2p32 tensor))) = [0, 0, 0, 2]"
  "le_bytes32 (ucast (GetDim (dataset_2p32 tensor))) = [128, 0, 0, 0]"
  by (simp_all add: le_bytes32_def dataset_2p32_def)

text \<open>
  Claim C7 fails where \<open>num * dim\<close> reaches \<open>2^32\<close>: for \<open>2^25\<close> rows of dimension 128
  the payload should be \<open>2^34\<close> bytes, the code computes a size of 0, and the file staged
  for the engine (seen here after a failed build, which leaves it in place) is the eight
  header bytes alone.
\<close>

theorem BuildWithDataset_payload_size_wraps:
  "sint (GetRows (dataset_2p32 tensor)) * sint (GetDim (dataset_2p32 tensor)) * 4 = 2 ^ 34 \<and>
   data_size_of T_float (dataset_2p32 tensor) = 0 \<and>
   fst (BuildWithDataset (idx_E6\<lparr>index := engine_failing\<rparr>) (dataset_2p32 tensor)
          config_E6 Map.empty) = Inl IndexBuildError \<and>
   snd (BuildWithDataset (idx_E6\<lparr>index := engine_failing\<rparr>) (dataset_2p32 tensor)
          config_E6 Map.empty) raw_data_path_E6 = Some [0, 0, 0, 2, 128, 0, 0, 0]"
proof (intro conjI)
  show "sint (GetRows (dataset_2p32 tensor)) * sint (GetDim (dataset_2p32 tensor)) * 4 = 2 ^ 34"
    by (simp add: dataset_2p32_def)
  show size: "data_size_of T_float (dataset_2p32 tensor) = 0"
    by (simp add: data_size_of_def dataset_2p32_def)
  have stage: "stage_raw_data T_float raw_data_path_E6 (dataset_2p32 tensor) Map.empty =
      Inr [raw_data_path_E6 \<mapsto> [0, 0, 0, 2, 128, 0, 0, 0] ]"
    by (simp add: stage_raw_data_def size header_2p32 Exist_def CreateFile_def Write_def
        write_at_def Let_def)
  have path: "''/local/raw_data/7/101/'' @ ''raw_data'' = raw_data_path_E6"
    by (simp add: raw_data_path_E6_def)
  show "fst (BuildWithDataset (idx_E6\<lparr>index := engine_failing\<rparr>) (dataset_2p32 tensor)
          config_E6 Map.empty) = Inl IndexBuildError"
    using stage path by (simp add: BuildWithDataset_def build_E6)
  show "snd (BuildWithDataset (idx_E6\<lparr>index := engine_failing\<rparr>) (dataset_2p32 tensor)
          config_E6 Map.empty) raw_data_path_E6 = Some [0, 0, 0, 2, 128, 0, 0, 0]"
    using stage path by (simp add: BuildWithDataset_def build_E6)
qed

text \<open>Short of that wrap-around the staged file is the header followed by the payload.\<close>

lemma stage_raw_data_layout:
  assumes fresh: "\<not> Exist fs path"
    and payload: "unat (data_size_of T dataset) \<le> length (GetTensor dataset)"
  shows "stage_raw_data T path dataset fs =
           Inr (fs(path \<mapsto>
                  le_bytes32 (ucast (GetRows dataset)) @ le_bytes32 (ucast (GetDim dataset)) @
                  take (unat (data_size_of T dataset)) (GetTensor dataset)))"
  using assms
  by (simp add: stage_raw_data_def Exist_def CreateFile_def Write_def write_at_def
      le_bytes32_def Let_def)

lemma sizeof_T_le: "unat (sizeof_T T) \<le> 4"
  by (cases T) simp_all

lemma data_size_exact:
  assumes rows: "0 \<le> sint (GetRows dataset)" "sint (GetRows dataset) < 2 ^ 32"
    and dim: "0 \<le> sint (GetDim dataset)" "sint (GetDim dataset) < 2 ^ 32"
    and product: "sint (GetRows dataset) * sint (GetDim dataset) < 2 ^ 32"
  shows "int (unat (data_size_of T dataset)) =
           sint (GetRows dataset) * sint (GetDim dataset) * int (unat (sizeof_T T))"
proof -
  define num :: u32 where "num = ucast (GetRows dataset)"
  define dm :: u32 where "dm = ucast (GetDim dataset)"
  have num: "int (unat num) = sint (GetRows dataset)"
    unfolding num_def using rows by (rule unat_ucast_u32)
  have dm: "int (unat dm) = sint (GetDim dataset)"
    unfolding dm_def using dim by (rule unat_ucast_u32)
  have "int (unat num * unat dm) < 2 ^ 32"
    using product num dm by simp
  then have small: "unat num * unat dm < 2 ^ 32"
    by (simp flip: of_nat_mult)
  then have prod32: "unat (num * dm) = unat num * unat dm"
    using unat_mult_lem [of num dm] by simp
  have wide: "unat (ucast (num * dm) :: u64) = unat num * unat dm"
    using small prod32 by (simp add: unsigned_ucast_eq take_bit_nat_eq_self)
  have "unat num * unat dm * unat (sizeof_T T) \<le> unat num * unat dm * 4"
    using sizeof_T_le [of T] by (intro mult_le_mono le_refl)
  moreover have "unat num * unat dm * 4 < 2 ^ 32 * 4"
    using small by linarith
  moreover have "(2 :: nat) ^ 32 * 4 \<le> 2 ^ 64"
    by simp
  ultimately have "unat num * unat dm * unat (sizeof_T T) < 2 ^ 64"
    by linarith
  then have "unat ((ucast (num * dm) :: u64) * sizeof_T T) = unat num * unat dm * unat (sizeof_T T)"
    using unat_mult_lem [of "ucast (num * dm) :: u64" "sizeof_T T"] wide by simp
  then have "int (unat (data_size_of T dataset)) = int (unat num) * int (unat dm) * int (unat (sizeof_T T))"
    by (simp add: data_size_of_def num_def dm_def Let_def)
  then show ?thesis
    using num dm by simp
qed

section \<open>GetVector\<close>

lemma sdiv_nonneg:
  "0 \<le> k \<Longrightarrow> k sdiv 8 = k div (8 :: int)"
  by (simp add: signed_divide_int_def sgn_if)

text \<open>
  When the tensor the engine returns has the bytes that \<^verbatim>\<open>GetVector\<close> asks for (a
  non-negative dimension and row count whose product times 4 fits 64 bits), the buffer
  returned has exactly \<open>dim * n * 4\<close> bytes for an index type outside the binary list and
  exactly \<open>dim / 8 * n\<close> bytes for one inside it.
\<close>

lemma GetVector_when_tensor_suffices:
  assumes got: "GetVectorByIds (index idx) dataset = Some res"
    and nonneg: "0 \<le> sint (GetDim res)" "0 \<le> sint (GetRows res)"
    and fits: "sint (GetDim res) * sint (GetRows res) * 4 < 2 ^ 63"
    and tensor: "(if GetIndexType idx \<in> set (BIN_List idx)
                  then sint (GetDim res) div 8 * sint (GetRows res)
                  else sint (GetDim res) * sint (GetRows res) * 4) \<le> int (length (GetTensor res))"
  shows "\<exists>raw_data.
           GetVector idx dataset = Inr raw_data \<and>
           int (length raw_data) =
             (if GetIndexType idx \<in> set (BIN_List idx)
              then sint (GetDim res) div 8 * sint (GetRows res)
              else sint (GetDim res) * sint (GetRows res) * 4)"
proof -
  let ?d = "sint (GetDim res)" and ?n = "sint (GetRows res)"
  define data_size :: i64 where
    "data_size = (if GetIndexType idx \<in> set (BIN_List idx)
                  then word_of_int (?d sdiv 8) * GetRows res
                  else GetDim res * GetRows res * 4)"
  define expected where
    "expected = (if GetIndexType idx \<in> set (BIN_List idx) then ?d div 8 * ?n else ?d * ?n * 4)"
  have dn0: "0 \<le> ?d * ?n"
    using nonneg by simp
  have dn: "?d * ?n < 2 ^ 63"
    using fits dn0 by linarith
  have d8: "0 \<le> ?d div 8" "?d div 8 \<le> ?d"
    using nonneg(1) by simp_all
  have bin0: "0 \<le> ?d div 8 * ?n"
    using d8 nonneg by simp
  have bin: "?d div 8 * ?n < 2 ^ 63"
    using mult_right_mono [OF d8(2) nonneg(2)] dn by linarith
  have d_small: "?d < 2 ^ 63"
    using sint_lt [of "GetDim res"] by simp
  have sint_size: "sint data_size = expected"
  proof (cases "GetIndexType idx \<in> set (BIN_List idx)")
    case True
    have "sint (word_of_int (?d div 8) :: i64) = ?d div 8"
      using d8 d_small by (intro sint_word_of_int_small) linarith+
    then have "sint (word_of_int (?d div 8) * GetRows res :: i64) = ?d div 8 * ?n"
      using bin0 bin by (subst sint_mult_no_wrap) simp_all
    then show ?thesis
      using True nonneg(1) by (simp add: data_size_def expected_def sdiv_nonneg)
  next
    case False
    have one: "sint (GetDim res * GetRows res) = ?d * ?n"
      using dn0 dn by (intro sint_mult_no_wrap) simp_all
    have "sint (GetDim res * GetRows res * 4) = ?d * ?n * 4"
      using one dn0 fits by (subst sint_mult_no_wrap) simp_all
    then show ?thesis
      using False by (simp add: data_size_def expected_def)
  qed
  have exp0: "0 \<le> expected"
    using dn0 bin0 by (simp add: expected_def)
  have unat_size: "int (unat data_size) = expected"
    using unat_of_nonneg_sint [of data_size] sint_size exp0 by simp
  have enough: "unat data_size \<le> length (GetTensor res)"
    using tensor unat_size unfolding expected_def by linarith
  have run: "GetVector idx dataset = Inr (take (unat data_size) (GetTensor res))"
    using got sint_size exp0 enough
    by (simp add: GetVector_def is_in_bin_list_def Let_def data_size_def [symmetric] not_less)
  have "length (take (unat data_size) (GetTensor res)) = unat data_size"
    using enough by simp
  then have len: "int (length (take (unat data_size) (GetTensor res))) = expected"
    using unat_size by linarith
  show ?thesis
    using run len unfolding expected_def by blast
qed

text \<open>
  The engine of a half-precision instantiation holds two bytes per element, and then the
  \<open>dim * n * 4\<close> bytes that \<^verbatim>\<open>GetVector\<close> copies are twice what the tensor has.
\<close>

lemma GetVector_past_half_precision_tensor:
  assumes got: "GetVectorByIds (index idx) dataset = Some res"
    and half: "elem_T idx \<noteq> T_float"
    and not_bin: "GetIndexType idx \<notin> set (BIN_List idx)"
    and pos: "0 < sint (GetDim res)" "0 < sint (GetRows res)"
    and fits: "sint (GetDim res) * sint (GetRows res) * 4 < 2 ^ 63"
    and tensor: "int (length (GetTensor res)) =
                   sint (GetDim res) * sint (GetRows res) * int (unat (sizeof_T (elem_T idx)))"
  shows "GetVector idx dataset = Inl UndefinedBehaviour"
proof -
  let ?d = "sint (GetDim res)" and ?n = "sint (GetRows res)"
  have two: "unat (sizeof_T (elem_T idx)) = 2"
    using half by (cases "elem_T idx") simp_all
  have dn0: "0 < ?d * ?n"
    using pos by simp
  have dn: "?d * ?n < 2 ^ 63"
    using fits dn0 by linarith
  have one: "sint (GetDim res * GetRows res) = ?d * ?n"
    using dn0 dn by (intro sint_mult_no_wrap) simp_all
  have size: "sint (GetDim res * GetRows res * 4) = ?d * ?n * 4"
    using one dn0 fits by (subst sint_mult_no_wrap) simp_all
  then have "int (unat (GetDim res * GetRows res * 4)) = ?d * ?n * 4"
    using unat_of_nonneg_sint [of "GetDim res * GetRows res * 4"] dn0 by simp
  moreover have "int (length (GetTensor res)) = ?d * ?n * 2"
    using tensor two by simp
  ultimately have short: "length (GetTensor res) < unat (GetDim res * GetRows res * 4)"
    using dn0 by linarith
  show ?thesis
    using got not_bin size dn0 short
    by (simp add: GetVector_def is_in_bin_list_def Let_def)
qed

text \<open>
  Claim C10 fails for the float16 and bfloat16 instantiations. Their engine is created
  for \<open>T\<close> and is given \<open>num * dim * sizeof(T)\<close> bytes by \<^verbatim>\<open>BuildWithDataset\<close>, so the
  tensor of two vectors of dimension 4 has 16 bytes; \<^verbatim>\<open>GetVector\<close> sizes the buffer with
  \<^verbatim>\<open>sizeof(float)\<close> and copies 32 bytes from it, a read past the end of the tensor, where
  the float instantiation returns the 32 bytes of its tensor.
\<close>

theorem GetVector_reads_past_float16_tensor:
  "GetVectorByIds (index idx_half) \<lparr>GetRows = 2, GetDim = 4, GetTensor = []\<rparr> =
     Some \<lparr>GetRows = 2, GetDim = 4, GetTensor = tensor_half\<rparr> \<and>
   length tensor_half = 2 * 4 * unat (sizeof_T (elem_T idx_half)) \<and>
   unat (data_size_of (elem_T idx_half) \<lparr>GetRows = 2, GetDim = 4, GetTensor = tensor_half\<rparr>) =
     length tensor_half \<and>
   GetVector idx_half \<lparr>GetRows = 2, GetDim = 4, GetTensor = []\<rparr> = Inl UndefinedBehaviour \<and>
   GetVector (idx_half\<lparr>elem_T := T_bfloat16\<rparr>) \<lparr>GetRows = 2, GetDim = 4, GetTensor = []\<rparr> =
     Inl UndefinedBehaviour \<and>
   GetVector idx_E6 \<lparr>GetRows = 2, GetDim = 4, GetTensor = []\<rparr> = Inr tensor_E6 \<and>
   length tensor_E6 = 2 * 4 * unat (sizeof_T (elem_T idx_E6))"
  by (simp add: idx_half_def engine_half_def tensor_half_def idx_E6_def engine_ok_def
      tensor_E6_def le_bytes32_def data_size_of_def GetVector_def is_in_bin_list_def
      INDEX_DISKANN_def)

section \<open>Query and the rounding of the distances\<close>

text \<open>
  The arithmetic of the model on a few numbers: a product and a quotient, the two ties
  among the subnormal numbers going to the even mantissa, the divisions by zero, the
  overflow of a product, and \<^verbatim>\<open>std::round\<close> at 0.5, at -0.3, at 2.5, below 0.5 and on a
  number that is whole already.
\<close>

lemma binary32_examples:
  "f32_mul 0x3F800000 0x3F800000 = 0x3F800000"
  "f32_mul 0x00000001 0x3F000000 = 0x00000000"
  "f32_mul 0x00000003 0x3F000000 = 0x00000002"
  "f32_mul 0x7F7FFFFF 0x40000000 = 0x7F800000"
  "f32_div 0x3F800000 0x40400000 = 0x3EAAAAAB"
  "f32_div 0x3F800000 0x00000000 = 0x7F800000"
  "f32_div 0xBF800000 0x00000000 = 0xFF800000"
  "f32_value (f32_div 0x00000000 0x00000000) = NaN"
  "f32_value (f32_mul 0x7F800000 0x00000000) = NaN"
  "f32_round 0x3F000000 = 0x3F800000"
  "f32_round 0xBE99999A = 0x80000000"
  "f32_round 0x40200000 = 0x40400000"
  "f32_round 0x3EFFFFFF = 0x00000000"
  "f32_round 0x4B000001 = 0x4B000001"
  "f32_of_f64 0x47D2CED32A16A1B1 = 0x7E967699"
  by code_simp+

text \<open>
  The rounding is exact on the numbers of the format: the number that a \<^verbatim>\<open>float\<close> holds
  rounds to that \<^verbatim>\<open>float\<close>. \<open>bit_length n\<close> is the number of binary digits of \<open>n\<close>.
\<close>

lemma bit_length_bounds:
  "0 < n \<Longrightarrow> 1 \<le> bit_length n \<and> 2 ^ nat (bit_length n - 1) \<le> n \<and> n < 2 ^ nat (bit_length n)"
proof (induction n rule: bit_length.induct)
  case (1 n)
  show ?case
  proof (cases "n div 2 = 0")
    case True
    with 1(2) have "n = 1" by simp
    then show ?thesis
      by (simp add: bit_length.simps)
  next
    case False
    with 1(2) have pos: "0 < n div 2" by simp
    define b where "b = bit_length (n div 2)"
    from 1(1) 1(2) pos have IH: "1 \<le> b" "2 ^ nat (b - 1) \<le> n div 2" "n div 2 < 2 ^ nat b"
      by (simp_all add: b_def)
    have bl: "bit_length n = 1 + b"
      using 1(2) by (subst bit_length.simps) (simp add: b_def)
    define k where "k = nat (b - 1)"
    have b: "b = int k + 1"
      using IH(1) by (simp add: k_def)
    have p: "nat (1 + b) = Suc (Suc k)" "nat (1 + b - 1) = Suc k" "nat b = Suc k" "nat (b - 1) = k"
      by (simp_all add: b nat_add_distrib)
    have "2 * (n div 2) \<le> n" "n < 2 * (n div 2) + 2"
      by simp_all
    with IH bl show ?thesis
      by (simp add: p)
  qed
qed

lemma bit_length_eq:
  assumes "2 ^ k \<le> n" "n < 2 ^ Suc k"
  shows "bit_length n = int k + 1"
proof -
  have pos: "0 < n"
    using assms(1) by (smt (verit) zero_less_power)
  from bit_length_bounds [OF pos] have
    b: "1 \<le> bit_length n" "2 ^ nat (bit_length n - 1) \<le> n" "n < 2 ^ nat (bit_length n)"
    by simp_all
  have "(2::int) ^ k < 2 ^ nat (bit_length n)"
    using assms(1) b(3) by linarith
  then have "k < nat (bit_length n)"
    by simp
  moreover have "(2::int) ^ nat (bit_length n - 1) < 2 ^ Suc k"
    using assms(2) b(2) by linarith
  then have "nat (bit_length n - 1) < Suc k"
    by (rule power_less_imp_less_exp [of "2::int", rotated]) simp
  ultimately show ?thesis
    using b(1) by linarith
qed

lemma floor_log2_one:
  assumes "0 < m"
  shows "floor_log2 m 1 = bit_length m - 1"
proof -
  have one: "bit_length 1 = 1"
    by (simp add: bit_length.simps)
  from bit_length_bounds [OF assms] show ?thesis
    by (simp add: floor_log2_def one Let_def)
qed

lemma round_nearest_even_one: "round_nearest_even a 1 = a"
  by (simp add: round_nearest_even_def)

lemma round_binary_normal:
  assumes "2 ^ 23 \<le> m" "m < 2 ^ 24" "- 149 \<le> q"
  shows "round_binary 24 (- 149) m 1 q = (q + 149) * 2 ^ 23 + m"
proof -
  have pos: "0 < m" using assms(1) by simp
  have "bit_length m = 24"
    using bit_length_eq [of 23 m] assms by simp
  then show ?thesis
    using pos assms(3)
    by (simp add: round_binary_def floor_log2_one Let_def round_nearest_even_one max_def)
qed

lemma round_binary_subnormal:
  assumes "0 \<le> m" "m < 2 ^ 23"
  shows "round_binary 24 (- 149) m 1 (- 149) = m"
proof (cases "m = 0")
  case True
  then show ?thesis by (simp add: round_binary_def)
next
  case False
  with assms have pos: "0 < m" by simp
  from bit_length_bounds [OF pos] assms(2)
  have "(2::int) ^ nat (bit_length m - 1) < 2 ^ 23"
    by linarith
  then have "nat (bit_length m - 1) < 23"
    by (rule power_less_imp_less_exp [of "2::int", rotated]) simp
  then have "bit_length m \<le> 23"
    by linarith
  then show ?thesis
    using pos
    by (simp add: round_binary_def floor_log2_one Let_def round_nearest_even_one max_def)
qed

lemma f32_round_trip:
  assumes "f32_value x = Finite s m q"
  shows "f32_of_fraction s m 1 q = x"
proof -
  define u where "u = uint x"
  define ex where "ex = u div 2 ^ 23 mod 256"
  define frac where "frac = u mod 2 ^ 23"
  have u: "0 \<le> u" "u < 2 ^ 32"
    using uint_lt2p [of x] by (simp_all add: u_def)
  have frac: "0 \<le> frac" "frac < 2 ^ 23"
    by (simp_all add: frac_def)
  have ex: "0 \<le> ex" "ex < 256"
    by (simp_all add: ex_def)
  define d where "d = u div 2 ^ 23"
  have d: "0 \<le> d" "d \<le> 511" "2 ^ 31 \<le> u \<Longrightarrow> 256 \<le> d" "u < 2 ^ 31 \<Longrightarrow> d \<le> 255"
    using u zdiv_mono1 [of u "2 ^ 32 - 1" "2 ^ 23"] zdiv_mono1 [of "2 ^ 31" u "2 ^ 23"]
      zdiv_mono1 [of u "2 ^ 31 - 1" "2 ^ 23"]
    by (simp_all add: d_def)
  have hi: "u div 2 ^ 23 = (if 2 ^ 31 \<le> u then 256 else 0) + ex"
  proof (cases "2 ^ 31 \<le> u")
    case True
    with d have "256 \<le> d" "d \<le> 511" by simp_all
    then have "d = 256 + d mod 256" by presburger
    with True show ?thesis by (simp add: ex_def d_def)
  next
    case False
    with d have "0 \<le> d" "d \<le> 255" by simp_all
    then have "d = d mod 256" by simp
    with False show ?thesis by (simp add: ex_def d_def)
  qed
  have split: "u = (if 2 ^ 31 \<le> u then 2 ^ 31 else 0) + ex * 2 ^ 23 + frac"
    using hi div_mult_mod_eq [of u "2 ^ 23"] unfolding frac_def by (auto split: if_splits)
  have finite: "ex \<noteq> 255"
    using assms by (auto simp: f32_value_def Let_def u_def ex_def split: if_splits)
  have sign: "s = (2 ^ 31 \<le> u)"
    using assms by (auto simp: f32_value_def Let_def u_def split: if_splits)
  have bits: "round_binary 24 (- 149) m 1 q = ex * 2 ^ 23 + frac"
  proof (cases "ex = 0")
    case True
    then have "m = frac" "q = - 149"
      using assms by (auto simp: f32_value_def Let_def u_def ex_def frac_def split: if_splits)
    then show ?thesis
      using True frac round_binary_subnormal by simp
  next
    case False
    then have mq: "m = 2 ^ 23 + frac" "q = ex - 150"
      using assms finite by (auto simp: f32_value_def Let_def u_def ex_def frac_def split: if_splits)
    have "round_binary 24 (- 149) m 1 q = (q + 149) * 2 ^ 23 + m"
      using mq frac ex False by (intro round_binary_normal) simp_all
    also have "\<dots> = ex * 2 ^ 23 + frac"
      unfolding mq by (simp add: algebra_simps)
    finally show ?thesis .
  qed
  have below: "ex * 2 ^ 23 + frac < 0x7F800000"
    using ex finite frac by simp
  have "f32_of_fraction s m 1 q =
      (if 2 ^ 31 \<le> u then 0x80000000 else 0) + word_of_int (ex * 2 ^ 23 + frac)"
    using below by (simp add: f32_of_fraction_def bits sign min_def)
  also have "\<dots> = word_of_int ((if 2 ^ 31 \<le> u then 2 ^ 31 else 0) + ex * 2 ^ 23 + frac)"
    by simp
  also have "\<dots> = word_of_int u"
    using split by simp
  also have "\<dots> = x"
    by (simp add: u_def)
  finally show ?thesis .
qed






text \<open>
  The search of the example with \<open>round_decimal\<close> 1, 2 and -1: the multipliers are 10.0
  and 100.0, and 1.2345 becomes 1.2 and 1.23, the \<^verbatim>\<open>float\<close>s nearest to them.
\<close>

lemma multiplier_E6:
  "f32_of_f64 (pow_E6 0x4024000000000000 (f64_of_int64 1)) = 0x41200000"
  "f32_of_f64 (pow_E6 0x4024000000000000 (f64_of_int64 2)) = 0x42C80000"
  "f32_of_f64 (pow_E6 0x4024000000000000 (f64_of_int64 39)) = 0x7F800000"
  by code_simp+



lemmas Query_E6_eval =
  Query_def Query_final_def idx_search_def idx_E6_def engine_search_def engine_ok_def
  query_E6_def info_E6_def GetValueFromConfig_float_def RADIUS_def vector_too_long_def
  vector_max_size_def Let_def




text \<open>
  From \<open>10^39\<close> on the multiplier itself is beyond the largest \<^verbatim>\<open>float\<close> and is an
  infinity; every distance is then returned as a NaN.
\<close>

lemma round_distance_by_infinity:
  "f32_value (round_distance 0x7F800000 0x3F9E0419) = NaN"
  "f32_value (round_distance 0x7F800000 0x40200000) = NaN"
  "f32_value (round_distance 0x7F800000 0x7F7FFFFF) = NaN"
  by code_simp+

lemma Query_E6_39:
  "\<exists>search_result.
     Query idx_search query_E6 (info_E6\<lparr>round_decimal := 39\<rparr>) [] = Inr search_result \<and>
     map f32_value (result_distances search_result) = [NaN, NaN, NaN]"
  by (simp add: Query_E6_eval multiplier_E6 rounding_loop.simps round_distance_by_infinity)







end
